theory Spec2Isabelle
  imports Main "HOL-Library.Word"
begin

unbundle bit_operations_syntax

section \<open>Go values and the outside world\<close>

text \<open>
  The runner is a Go program (package main, in two variants: the UML backend of
  \<^verbatim>\<open>runner/instance.go\<close> and the QEMU backend). Go's \<^verbatim>\<open>int\<close> and \<^verbatim>\<open>uint64\<close> are 64-bit
  words (the QEMU backend runs \<^verbatim>\<open>qemu-system-x86_64\<close>); a Go string and a \<^verbatim>\<open>[]byte\<close> are
  byte sequences, here \<open>char list\<close> (a \<open>char\<close> is one byte). A pointer that may be nil
  is an \<open>option\<close>. A Go function returning \<^verbatim>\<open>(T, error)\<close> returns a pair here, because
  the code can return both a value and an error.
\<close>

type_synonym go_int = "64 word"
type_synonym uint64 = "64 word"
type_synonym addr = nat

datatype error = Err string

text \<open>A call either returns or panics (a nil pointer dereference is the only panic
  the modelled code can raise).\<close>

datatype 'a outcome = Panic | Return 'a

text \<open>\<^verbatim>\<open>*Tap\<close> is declared in the network allocator, which is not among the sources; the
  instance code reads only these two fields of it.\<close>

record Tap =
  Name :: string
  RemoteIP :: string

text \<open>An \<^verbatim>\<open>io.Writer\<close>: an \<^verbatim>\<open>*os.File\<close> (possibly a nil pointer inside a non-nil
  interface, which is what \<^verbatim>\<open>os.Create\<close> hands back on failure) or a writer the caller
  supplied.\<close>

datatype writer = File "string option" | Writer nat

record execReq =
  Uid :: go_int
  Gid :: go_int
  Path :: string
  Argv :: "string list"
  Env :: "string list"
  Dir :: string

text \<open>\<^verbatim>\<open>exec.Cmd\<close>, with the fields \<^verbatim>\<open>start\<close> sets; \<open>Process\<close> is nil until the command has
  been started successfully.\<close>

record Cmd =
  cmd_Path :: string
  cmd_Env :: "string list"
  Stdout :: "writer option"
  Stderr :: "writer option"
  Process :: "nat option"

text \<open>The arguments of a \<^verbatim>\<open>log.Fatalf\<close> call after its format string.\<close>

datatype fmt_arg = AInt go_int | AStr string | AErr error

text \<open>Every call that leaves the process is recorded, in order, in a trace.\<close>

datatype event =
    TempDir "error + string"
  | TempFile "error + string"
  | Chmod string
  | Chown string go_int go_int
  | Create string
  | FileSeek string "64 word"
  | FileWrite string string
  | FileChown string go_int go_int
  | FileClose string
  | Remove string
  | RemoveAll string
  | NewTap go_int go_int
  | TapWriteInterfaceConfig Tap string
  | TapClose Tap
  | CmdRun "string list"
  | CmdCombinedOutput "string list"
  | CmdStart string "string list" "writer option"
  | CmdWait nat
  | ProcessKill nat
  | Setgid go_int
  | Setuid go_int
  | Chdir string
  | Println string string "string list"
  | Exec string "string list" "string list"

section \<open>The two backends' configuration\<close>

record UMLDrive =
  FS :: string
  COW :: string
  TempCOW :: bool

record UMLConfig =
  Path :: string
  User :: go_int
  Group :: go_int
  Memory :: string
  Drives :: "UMLDrive list"
  Args :: "string list"
  Out :: "writer option"
  hostFS :: string

record UMLManager =
  nextID :: uint64

record uml =
  ID :: string
  UMLConfig :: addr
  tap :: "Tap option"
  cmd :: "Cmd option"
  tempFiles :: "string list"

record VMDrive =
  FS :: string
  COW :: string
  TempCOW :: bool

record VMConfig =
  Kernel :: string
  User :: go_int
  Group :: go_int
  Memory :: string
  Drives :: "string \<rightharpoonup> VMDrive"
  Args :: "string list"
  Out :: "writer option"
  netFS :: string

record VMManager =
  nextID :: uint64

record vm =
  ID :: string
  VMConfig :: addr
  tap :: "Tap option"
  cmd :: "Cmd option"
  tempFiles :: "string list"

text \<open>
  What the operating system, the network allocator and the Go runtime answer is not
  decided by the program. Each answer is a function of the calls made so far, so any
  pattern of failures can be chosen. \<open>range_Drives\<close> is the order in which a
  \<^verbatim>\<open>range\<close> loop visits the keys of the QEMU backend's drive map, which Go leaves open.
\<close>

record env =
  os_error :: "event list \<Rightarrow> event \<Rightarrow> error option"
  os_TempDir :: "event list \<Rightarrow> error + string"
  os_TempFile :: "event list \<Rightarrow> error + string"
  os_StartProcess :: "event list \<Rightarrow> error + nat"
  taps_NewTap :: "event list \<Rightarrow> Tap option \<times> error option"
  tool_output :: "event list \<Rightarrow> string"
  os_Args0 :: string
  os_Environ :: "string list"
  range_Drives :: "(string \<rightharpoonup> VMDrive) \<Rightarrow> string list"
  strconv_Quote :: "string \<Rightarrow> string"

text \<open>The state of the process: the trace, and the store of the configuration structs the
  caller allocated. An instance holds the address of its config
  (\<^verbatim>\<open>*UMLConfig\<close>, \<^verbatim>\<open>*VMConfig\<close>), so the caller and the instance share one struct.\<close>

record 'c world =
  trace :: "event list"
  heap :: "addr \<Rightarrow> 'c option"

definition os_call :: "env \<Rightarrow> event \<Rightarrow> 'c world \<Rightarrow> error option \<times> 'c world" where
  "os_call E ev w = (os_error E (trace w) ev, w\<lparr>trace := trace w @ [ev]\<rparr>)"

definition ioutil_TempDir :: "env \<Rightarrow> 'c world \<Rightarrow> (error + string) \<times> 'c world" where
  "ioutil_TempDir E w =
     (let r = os_TempDir E (trace w) in (r, w\<lparr>trace := trace w @ [TempDir r]\<rparr>))"

definition ioutil_TempFile :: "env \<Rightarrow> 'c world \<Rightarrow> (error + string) \<times> 'c world" where
  "ioutil_TempFile E w =
     (let r = os_TempFile E (trace w) in (r, w\<lparr>trace := trace w @ [TempFile r]\<rparr>))"

text \<open>\<^verbatim>\<open>os.Getenv\<close>: the value of the first entry \<^verbatim>\<open>key=value\<close> of the environment, or
  the empty string.\<close>

fun os_Getenv :: "string list \<Rightarrow> string \<Rightarrow> string" where
  "os_Getenv [] key = []"
| "os_Getenv (s # ss) key =
     (if take (length key + 1) s = key @ ''='' then drop (length key + 1) s
      else os_Getenv ss key)"

text \<open>\<^verbatim>\<open>filepath.Join(dir, name)\<close> for a directory \<^verbatim>\<open>ioutil.TempDir\<close> returned: such a
  path is already clean and is neither empty nor the root, so joining is concatenation
  with one separator.\<close>

definition filepath_Join :: "string \<Rightarrow> string \<Rightarrow> string" where
  "filepath_Join dir name = dir @ ''/'' @ name"

text \<open>The verb \<^verbatim>\<open>%d\<close> of \<^verbatim>\<open>fmt.Sprintf\<close> on a non-negative integer.\<close>

fun string_of_nat :: "nat \<Rightarrow> string" where
  "string_of_nat n =
     (if n < 10 then [''0123456789'' ! n]
      else string_of_nat (n div 10) @ [''0123456789'' ! (n mod 10)])"

declare string_of_nat.simps [simp del]

text \<open>\<^verbatim>\<open>err.Error()\<close>.\<close>

fun Error :: "error \<Rightarrow> string" where
  "Error (Err m) = m"

section \<open>The exec-request codec: encoding/gob carried in encoding/base64\<close>

text \<open>
  \<^verbatim>\<open>execReq.start\<close> writes \<^verbatim>\<open>gob.NewEncoder(b64).Encode(r)\<close> through a
  \<^verbatim>\<open>base64.StdEncoding\<close> encoder and \<^verbatim>\<open>maybeExec\<close> reads it back. Both packages belong
  to Go's standard library; they are modelled here at the level of their documented
  formats (RFC 4648 with padding; the gob wire format of the package documentation).
  Limits of the implementation (the size of a process environment, the largest message
  the library accepts) and the texts of the library's errors are outside the model.
\<close>

subsection \<open>base64.StdEncoding\<close>

definition encodeStd :: string where
  "encodeStd = ''ABCDEFGHIJKLMNOPQRSTUVWXYZabcdefghijklmnopqrstuvwxyz0123456789+/''"

definition b64_char :: "nat \<Rightarrow> char" where
  "b64_char n = encodeStd ! (n mod 64)"

fun index_from :: "nat \<Rightarrow> char \<Rightarrow> string \<Rightarrow> nat option" where
  "index_from i c [] = None"
| "index_from i c (x # xs) = (if x = c then Some i else index_from (Suc i) c xs)"

definition decodeMap :: "char \<Rightarrow> nat option" where
  "decodeMap c = index_from 0 c encodeStd"

text \<open>Three bytes become four characters; the last one or two bytes are padded with
  \<^verbatim>\<open>=\<close>.\<close>

fun b64_Encode :: "string \<Rightarrow> string" where
  "b64_Encode (a # b # c # src) =
     (let val = of_char a * 65536 + of_char b * 256 + of_char c :: nat
      in [b64_char (val div 262144), b64_char (val div 4096), b64_char (val div 64),
          b64_char val] @ b64_Encode src)"
| "b64_Encode [a, b] =
     (let val = of_char a * 65536 + of_char b * 256 :: nat
      in [b64_char (val div 262144), b64_char (val div 4096), b64_char (val div 64),
          CHR ''=''])"
| "b64_Encode [a] =
     (let val = of_char a * 65536 :: nat
      in [b64_char (val div 262144), b64_char (val div 4096), CHR ''='', CHR ''=''])"
| "b64_Encode [] = []"

definition corrupt :: error where
  "corrupt = Err ''illegal base64 data''"

text \<open>One quantum of four characters; padding is accepted in the last quantum only.\<close>

fun b64_quanta :: "string \<Rightarrow> error + string" where
  "b64_quanta (c0 # c1 # c2 # c3 # src) =
     (case (decodeMap c0, decodeMap c1) of
        (Some n0, Some n1) \<Rightarrow>
          (if src = [] \<and> c2 = CHR ''='' then
             (if c3 = CHR ''='' then Inr [char_of ((n0 * 64 + n1) div 16)] else Inl corrupt)
           else
             (case decodeMap c2 of
                None \<Rightarrow> Inl corrupt
              | Some n2 \<Rightarrow>
                  (if src = [] \<and> c3 = CHR ''='' then
                     (let val = n0 * 4096 + n1 * 64 + n2
                      in Inr [char_of (val div 1024), char_of (val div 4)])
                   else
                     (case decodeMap c3 of
                        None \<Rightarrow> Inl corrupt
                      | Some n3 \<Rightarrow>
                          (let val = n0 * 262144 + n1 * 4096 + n2 * 64 + n3
                           in case b64_quanta src of
                                Inl e \<Rightarrow> Inl e
                              | Inr bs \<Rightarrow>
                                  Inr ([char_of (val div 65536), char_of (val div 256),
                                        char_of val] @ bs))))))
      | _ \<Rightarrow> Inl corrupt)"
| "b64_quanta [] = Inr []"
| "b64_quanta _ = Inl corrupt"

text \<open>\<^verbatim>\<open>base64.NewDecoder\<close> drops carriage returns and line feeds before decoding.\<close>

definition b64_Decode :: "string \<Rightarrow> error + string" where
  "b64_Decode data = b64_quanta (filter (\<lambda>c. c \<noteq> CHR 0x0A \<and> c \<noteq> CHR 0x0D) data)"

subsection \<open>The gob wire format\<close>

text \<open>An unsigned integer below 128 is one byte; otherwise the byte count, negated, then
  the value in as few big-endian bytes as hold it.\<close>

fun be_bytes :: "nat \<Rightarrow> string" where
  "be_bytes n = (if n = 0 then [] else be_bytes (n div 256) @ [char_of (n mod 256)])"

declare be_bytes.simps [simp del]

definition be_value :: "string \<Rightarrow> nat" where
  "be_value bs = foldl (\<lambda>v b. v * 256 + of_char b) 0 bs"

definition encodeUint :: "uint64 \<Rightarrow> string" where
  "encodeUint x =
     (if x \<le> 127 then [char_of (unat x)]
      else (let bs = be_bytes (unat x) in char_of (256 - length bs) # bs))"

definition decodeUint :: "string \<Rightarrow> (uint64 \<times> string) option" where
  "decodeUint s =
     (case s of
        [] \<Rightarrow> None
      | b # rest \<Rightarrow>
          if (of_char b :: nat) \<le> 127 then Some (of_nat (of_char b), rest)
          else (let n = 256 - of_char b in
                if 8 < n \<or> length rest < n then None
                else Some (of_nat (be_value (take n rest)), drop n rest)))"

text \<open>A signed integer travels inside an unsigned one: bit 0 says whether the remaining
  bits are to be complemented.\<close>

definition encodeInt :: "go_int \<Rightarrow> string" where
  "encodeInt i = encodeUint (if i <s 0 then push_bit 1 (NOT i) OR 1 else push_bit 1 i)"

definition decodeInt :: "string \<Rightarrow> (go_int \<times> string) option" where
  "decodeInt s =
     (case decodeUint s of
        None \<Rightarrow> None
      | Some (x, rest) \<Rightarrow>
          Some (if x AND 1 \<noteq> 0 then NOT (drop_bit 1 x) else drop_bit 1 x, rest))"

definition encodeString :: "string \<Rightarrow> string" where
  "encodeString s = encodeUint (of_nat (length s)) @ s"

definition decodeString :: "string \<Rightarrow> (string \<times> string) option" where
  "decodeString s =
     (case decodeUint s of
        None \<Rightarrow> None
      | Some (n, rest) \<Rightarrow>
          if length rest < unat n then None
          else Some (take (unat n) rest, drop (unat n) rest))"

definition encodeStrings :: "string list \<Rightarrow> string" where
  "encodeStrings xs = encodeUint (of_nat (length xs)) @ concat (map encodeString xs)"

fun decodeElems :: "nat \<Rightarrow> string \<Rightarrow> (string list \<times> string) option" where
  "decodeElems 0 s = Some ([], s)"
| "decodeElems (Suc n) s =
     (case decodeString s of
        None \<Rightarrow> None
      | Some (x, rest) \<Rightarrow>
          (case decodeElems n rest of
             None \<Rightarrow> None
           | Some (xs, rest') \<Rightarrow> Some (x # xs, rest')))"

definition decodeStrings :: "string \<Rightarrow> (string list \<times> string) option" where
  "decodeStrings s =
     (case decodeUint s of
        None \<Rightarrow> None
      | Some (n, rest) \<Rightarrow> decodeElems (unat n) rest)"

text \<open>A struct is sent as its non-zero fields in declaration order, each preceded by the
  distance from the previous field number (starting at -1), and closed by a zero. A
  field holding the zero value of its type (0, the empty string, a slice without
  elements) is left out.\<close>

definition sendField ::
  "int \<Rightarrow> bool \<Rightarrow> string \<Rightarrow> int \<times> string \<Rightarrow> int \<times> string" where
  "sendField field nonzero enc st =
     (if nonzero then (field, snd st @ encodeUint (of_int (field - fst st)) @ enc)
      else st)"

definition encodeStruct :: "execReq \<Rightarrow> string" where
  "encodeStruct r =
     snd (sendField 5 (Dir r \<noteq> []) (encodeString (Dir r))
         (sendField 4 (Env r \<noteq> []) (encodeStrings (Env r))
         (sendField 3 (Argv r \<noteq> []) (encodeStrings (Argv r))
         (sendField 2 (execReq.Path r \<noteq> []) (encodeString (execReq.Path r))
         (sendField 1 (Gid r \<noteq> 0) (encodeInt (Gid r))
         (sendField 0 (Uid r \<noteq> 0) (encodeInt (Uid r)) (- 1, []))))))) @ encodeUint 0"

definition decodeField :: "int \<Rightarrow> execReq \<Rightarrow> string \<Rightarrow> (execReq \<times> string) option" where
  "decodeField field r s =
     (if field = 0 then map_option (\<lambda>(v, rest). (r\<lparr>Uid := v\<rparr>, rest)) (decodeInt s)
      else if field = 1 then map_option (\<lambda>(v, rest). (r\<lparr>Gid := v\<rparr>, rest)) (decodeInt s)
      else if field = 2 then
        map_option (\<lambda>(v, rest). (r\<lparr>execReq.Path := v\<rparr>, rest)) (decodeString s)
      else if field = 3 then map_option (\<lambda>(v, rest). (r\<lparr>Argv := v\<rparr>, rest)) (decodeStrings s)
      else if field = 4 then map_option (\<lambda>(v, rest). (r\<lparr>Env := v\<rparr>, rest)) (decodeStrings s)
      else if field = 5 then map_option (\<lambda>(v, rest). (r\<lparr>Dir := v\<rparr>, rest)) (decodeString s)
      else None)"

function decodeStruct :: "int \<Rightarrow> execReq \<Rightarrow> string \<Rightarrow> (execReq \<times> string) option" where
  "decodeStruct fieldnum r s =
     (case decodeUint s of
        None \<Rightarrow> None
      | Some (delta, s1) \<Rightarrow>
          if delta = 0 then Some (r, s1)
          else if 5 < fieldnum + uint delta then None
          else (case decodeField (fieldnum + uint delta) r s1 of
                  None \<Rightarrow> None
                | Some (r', s2) \<Rightarrow> decodeStruct (fieldnum + uint delta) r' s2))"
  by pat_completeness auto
termination
  by (relation "measure (\<lambda>(fieldnum, r, s). nat (5 - fieldnum))")
     (auto simp: word_neq_0_conv word_less_def)

declare decodeStruct.simps [simp del]

text \<open>A stream is a sequence of messages, each preceded by its length. A message with
  a negative type id describes that type; the first message with a positive id carries
  the value. The encoder numbers the types it describes from 65: the struct first, then
  \<^verbatim>\<open>[]string\<close>. The descriptors are values of the library's \<^verbatim>\<open>wireType\<close>, sent in the
  same format.\<close>

definition message :: "string \<Rightarrow> string" where
  "message payload = encodeUint (of_nat (length payload)) @ payload"

definition encodeCommonType :: "string \<Rightarrow> go_int \<Rightarrow> string" where
  "encodeCommonType name tid =
     encodeUint 1 @ encodeString name @ encodeUint 1 @ encodeInt tid @ encodeUint 0"

definition structTypeDef :: string where
  "structTypeDef =
     encodeUint 3 @ encodeUint 1 @ encodeCommonType ''execReq'' 65 @
     encodeUint 1 @ encodeUint 6 @
     concat (map (\<lambda>(name, tid). encodeCommonType name tid)
       [(''Uid'', 2), (''Gid'', 2), (''Path'', 6), (''Argv'', 66), (''Env'', 66),
        (''Dir'', 6)]) @
     encodeUint 0 @ encodeUint 0"

definition sliceTypeDef :: string where
  "sliceTypeDef =
     encodeUint 2 @ encodeUint 1 @ encodeCommonType ''[]string'' 66 @
     encodeUint 1 @ encodeInt 6 @ encodeUint 0 @ encodeUint 0"

definition gob_Encode :: "execReq \<Rightarrow> error + string" where
  "gob_Encode r =
     Inr (message (encodeInt (- 65) @ structTypeDef) @
          message (encodeInt (- 66) @ sliceTypeDef) @
          message (encodeInt 65 @ encodeStruct r))"

definition gob_error :: error where
  "gob_error = Err ''gob: decoding failed''"

text \<open>Reading one message: its payload and what follows it.\<close>

definition readMessage :: "string \<Rightarrow> (string \<times> string) option" where
  "readMessage s =
     (case decodeUint s of
        None \<Rightarrow> None
      | Some (n, rest) \<Rightarrow>
          if length rest < unat n then None
          else Some (take (unat n) rest, drop (unat n) rest))"

text \<open>\<^verbatim>\<open>Decode(&req)\<close>: descriptors are taken in until the value arrives. The value's
  fields are matched to those of the receiving \<^verbatim>\<open>execReq\<close> through the descriptor sent
  for its id; parent and child are the same executable, so that match is the
  identity on field numbers, which is what \<open>decodeField\<close> uses. The recursion is on a
  bound for the number of messages, which the length of the input provides (every
  message takes at least one byte).\<close>

fun decodeMessages :: "nat \<Rightarrow> string \<Rightarrow> error + execReq" where
  "decodeMessages 0 s = Inl gob_error"
| "decodeMessages (Suc k) s =
     (case readMessage s of
        None \<Rightarrow> Inl gob_error
      | Some (payload, rest) \<Rightarrow>
          (case decodeInt payload of
             None \<Rightarrow> Inl gob_error
           | Some (tid, body) \<Rightarrow>
               if tid <s 0 then decodeMessages k rest
               else if tid \<noteq> 65 then Inl gob_error
               else (case decodeStruct (- 1)
                            \<lparr>Uid = 0, Gid = 0, Path = [], Argv = [], Env = [], Dir = []\<rparr> body of
                       None \<Rightarrow> Inl gob_error
                     | Some (r, _) \<Rightarrow> Inr r)))"

definition gob_Decode :: "string \<Rightarrow> error + execReq" where
  "gob_Decode s = decodeMessages (length s) s"

section \<open>The privileged exec bridge\<close>

text \<open>\<^verbatim>\<open>func (r *execReq) start(out io.Writer) (*exec.Cmd, error)\<close>\<close>

definition start ::
  "env \<Rightarrow> execReq \<Rightarrow> writer option \<Rightarrow> 'c world \<Rightarrow> (Cmd option \<times> error option) \<times> 'c world" where
  "start E r out w =
     (case gob_Encode r of
        Inl err \<Rightarrow> ((None, Some err), w)
      | Inr bytes \<Rightarrow>
          (let c = \<lparr>cmd_Path = os_Args0 E, cmd_Env = [''_EXEC_REQ='' @ b64_Encode bytes],
                    Stdout = out, Stderr = out, Process = None\<rparr>;
               res = os_StartProcess E (trace w);
               w1 = w\<lparr>trace := trace w @ [CmdStart (cmd_Path c) (cmd_Env c) out]\<rparr>
           in case res of
                Inl err \<Rightarrow> ((Some c, Some err), w1)
              | Inr pid \<Rightarrow> ((Some (c\<lparr>Process := Some pid\<rparr>), None), w1)))"

text \<open>\<^verbatim>\<open>gob.NewDecoder(base64.NewDecoder(base64.StdEncoding,
  strings.NewReader(data))).Decode(&req)\<close>\<close>

definition decodeReq :: "string \<Rightarrow> error + execReq" where
  "decodeReq data =
     (case b64_Decode data of Inl err \<Rightarrow> Inl err | Inr bytes \<Rightarrow> gob_Decode bytes)"

text \<open>What \<^verbatim>\<open>start\<close> puts behind \<^verbatim>\<open>_EXEC_REQ=\<close>.\<close>

definition encodeReq :: "execReq \<Rightarrow> string" where
  "encodeReq r = (case gob_Encode r of Inl err \<Rightarrow> [] | Inr bytes \<Rightarrow> b64_Encode bytes)"

text \<open>How a process that entered \<^verbatim>\<open>maybeExec\<close> goes on: \<^verbatim>\<open>maybeExec\<close> returns and
  \<^verbatim>\<open>main\<close> continues, or \<^verbatim>\<open>log.Fatalf\<close> ends the process with exit status 1, or
  \<^verbatim>\<open>syscall.Exec\<close> replaced the process image and nothing of this program runs any
  more.\<close>

datatype proc_end = Returned | Fatalf string "fmt_arg list" | Replaced

definition maybeExec :: "env \<Rightarrow> 'c world \<Rightarrow> proc_end \<times> 'c world" where
  "maybeExec E w =
     (let data = os_Getenv (os_Environ E) ''_EXEC_REQ'' in
      if data = [] then (Returned, w)
      else
        (case decodeReq data of
           Inl err \<Rightarrow> (Fatalf ''failed to decode exec request: %s'' [AErr err], w)
         | Inr req \<Rightarrow>
             (case (if 0 <s Gid req then os_call E (Setgid (Gid req)) w else (None, w)) of
                (Some err, w1) \<Rightarrow>
                  (Fatalf ''failed to setgid(%d): %s'' [AInt (Gid req), AErr err], w1)
              | (None, w1) \<Rightarrow>
                  (case (if 0 <s Uid req then os_call E (Setuid (Uid req)) w1 else (None, w1)) of
                     (Some err, w2) \<Rightarrow>
                       (Fatalf ''failed to setuid(%d): %s'' [AInt (Uid req), AErr err], w2)
                   | (None, w2) \<Rightarrow>
                       (case (if Dir req \<noteq> [] then os_call E (Chdir (Dir req)) w2
                              else (None, w2)) of
                          (Some err, w3) \<Rightarrow>
                            (Fatalf ''failed to chdir to %q: %s'' [AStr (Dir req), AErr err], w3)
                        | (None, w3) \<Rightarrow>
                            (let (_, w4) =
                                   os_call E (Println ''execing'' (execReq.Path req) (Argv req)) w3
                             in case os_call E
                                       (Exec (execReq.Path req) (Argv req) (Env req)) w4 of
                                  (Some err, w5) \<Rightarrow>
                                    (Fatalf ''failed to exec %q: %s''
                                       [AStr (execReq.Path req), AErr err], w5)
                                | (None, w5) \<Rightarrow> (Replaced, w5)))))))"

section \<open>The UML backend (runner/instance.go)\<close>

text \<open>\<^verbatim>\<open>func (u *UMLManager) NewInstance(c *UMLConfig) (Instance, error)\<close>. The config is
  passed by address; \<^verbatim>\<open>atomic.AddUint64\<close> wraps at \<open>2^64\<close>. The allocator's answer is
  the environment's. The returned \<^verbatim>\<open>Instance\<close> is \<open>None\<close> for the nil interface.\<close>

definition uml_NewInstance ::
  "env \<Rightarrow> UMLManager \<Rightarrow> addr \<Rightarrow> UMLConfig world \<Rightarrow>
   (uml option \<times> error option) outcome \<times> UMLManager \<times> UMLConfig world" where
  "uml_NewInstance E m a w =
     (let id = UMLManager.nextID m + 1 - 1;
          m1 = m\<lparr>UMLManager.nextID := UMLManager.nextID m + 1\<rparr>;
          inst = \<lparr>uml.ID = ''flynn'' @ string_of_nat (unat id), UMLConfig = a,
                  uml.tap = None, uml.cmd = None, uml.tempFiles = []\<rparr>
      in case heap w a of
           None \<Rightarrow> (Panic, m1, w)
         | Some c \<Rightarrow>
             (let c1 = (if UMLConfig.Path c = [] then c\<lparr>UMLConfig.Path := ''linux''\<rparr> else c);
                  w1 = w\<lparr>heap := (heap w)(a \<mapsto> c1)\<rparr>
              in case (if UMLConfig.Out c1 = None then
                         (case os_call E (Create (uml.ID inst @ ''.log'')) w1 of
                            (err, w2) \<Rightarrow>
                              (err, w2\<lparr>heap := (heap w2)(a \<mapsto> c1\<lparr>UMLConfig.Out :=
                                 Some (File (if err = None then Some (uml.ID inst @ ''.log'')
                                             else None))\<rparr>)\<rparr>))
                       else (None, w1)) of
                   (Some err, w2) \<Rightarrow> (Return (None, Some err), m1, w2)
                 | (None, w2) \<Rightarrow>
                     (case taps_NewTap E (trace w2) of
                        (t, err) \<Rightarrow>
                          (Return (Some (inst\<lparr>uml.tap := t\<rparr>), err), m1,
                           w2\<lparr>trace := trace w2 @
                                [NewTap (UMLConfig.User c1) (UMLConfig.Group c1)]\<rparr>))))"

text \<open>\<^verbatim>\<open>func (u *uml) writeInterfaceConfig() error\<close>. The deferred \<^verbatim>\<open>f.Close()\<close> runs
  when the function leaves, also by a panic. \<^verbatim>\<open>Tap.WriteInterfaceConfig\<close> and
  \<^verbatim>\<open>Tap.Close\<close> are methods of the allocator; on a nil \<^verbatim>\<open>*Tap\<close> they have nothing to
  work on and are taken to panic.\<close>

definition uml_writeInterfaceConfig ::
  "env \<Rightarrow> uml \<Rightarrow> UMLConfig world \<Rightarrow> error option outcome \<times> uml \<times> UMLConfig world" where
  "uml_writeInterfaceConfig E u w =
     (case ioutil_TempDir E w of
        (Inl err, w1) \<Rightarrow> (Return (Some err), u, w1)
      | (Inr dir, w1) \<Rightarrow>
          (let u1 = u\<lparr>uml.tempFiles := uml.tempFiles u @ [dir]\<rparr> in
           case heap w1 (UMLConfig u1) of
             None \<Rightarrow> (Panic, u1, w1)
           | Some c \<Rightarrow>
               (let w2 = w1\<lparr>heap := (heap w1)(UMLConfig u1 \<mapsto> c\<lparr>hostFS := dir\<rparr>)\<rparr> in
                case os_call E (Chmod dir) w2 of
                  (Some err, w3) \<Rightarrow>
                    (Return (Some err), u1, snd (os_call E (RemoveAll dir) w3))
                | (None, w3) \<Rightarrow>
                    (let f = filepath_Join dir ''eth0'' in
                     case os_call E (Create f) w3 of
                       (Some err, w4) \<Rightarrow>
                         (Return (Some err), u1, snd (os_call E (RemoveAll dir) w4))
                     | (None, w4) \<Rightarrow>
                         (case uml.tap u1 of
                            None \<Rightarrow> (Panic, u1, snd (os_call E (FileClose f) w4))
                          | Some t \<Rightarrow>
                              (case os_call E (TapWriteInterfaceConfig t f) w4 of
                                 (err, w5) \<Rightarrow>
                                   (Return err, u1, snd (os_call E (FileClose f) w5))))))))"

text \<open>\<^verbatim>\<open>func (u *uml) cleanup()\<close>\<close>

definition uml_cleanup ::
  "env \<Rightarrow> uml \<Rightarrow> UMLConfig world \<Rightarrow> unit outcome \<times> uml \<times> UMLConfig world" where
  "uml_cleanup E u w =
     (let w1 = fold (\<lambda>f w. snd (os_call E (RemoveAll f) w)) (uml.tempFiles u) w in
      case uml.tap u of
        None \<Rightarrow> (Panic, u, w1)
      | Some t \<Rightarrow> (Return (), u\<lparr>uml.tempFiles := []\<rparr>, snd (os_call E (TapClose t) w1)))"

text \<open>\<^verbatim>\<open>func (u *uml) tempCOW() (string, error)\<close>\<close>

definition uml_tempCOW ::
  "env \<Rightarrow> uml \<Rightarrow> UMLConfig world \<Rightarrow> (string \<times> error option) outcome \<times> uml \<times> UMLConfig world" where
  "uml_tempCOW E u w =
     (case ioutil_TempDir E w of
        (Inl err, w1) \<Rightarrow> (Return ([], Some err), u, w1)
      | (Inr dir, w1) \<Rightarrow>
          (case heap w1 (UMLConfig u) of
             None \<Rightarrow> (Panic, u, w1)
           | Some c \<Rightarrow>
               (case os_call E (Chown dir (UMLConfig.User c) (UMLConfig.Group c)) w1 of
                  (Some err, w2) \<Rightarrow> (Return ([], Some err), u, w2)
                | (None, w2) \<Rightarrow>
                    (Return (filepath_Join dir ''fs.cow1'', None),
                     u\<lparr>uml.tempFiles := uml.tempFiles u @ [dir]\<rparr>, w2))))"

text \<open>The loop \<^verbatim>\<open>for i, d := range u.Drives\<close> of \<^verbatim>\<open>Start\<close>, from index \<open>i\<close> on. \<open>d\<close> is
  a copy of the drive, so the config's drives stay as they are. \<open>Return (Some err)\<close> is
  the loop's \<^verbatim>\<open>return err\<close> out of \<^verbatim>\<open>Start\<close>, after \<^verbatim>\<open>u.cleanup()\<close>.\<close>

fun uml_Start_range ::
  "env \<Rightarrow> nat \<Rightarrow> UMLDrive list \<Rightarrow> uml \<Rightarrow> UMLConfig world \<Rightarrow>
   error option outcome \<times> uml \<times> UMLConfig world" where
  "uml_Start_range E i [] u w = (Return None, u, w)"
| "uml_Start_range E i (d # ds) u w =
     (case (if UMLDrive.TempCOW d then
              (case uml_tempCOW E u w of
                 (Panic, u1, w1) \<Rightarrow> (Panic, u1, w1)
               | (Return (cow, err), u1, w1) \<Rightarrow>
                   (Return (d\<lparr>UMLDrive.COW := cow\<rparr>, err), u1, w1))
            else (Return (d, None), u, w)) of
        (Panic, u1, w1) \<Rightarrow> (Panic, u1, w1)
      | (Return (d1, Some err), u1, w1) \<Rightarrow>
          (case uml_cleanup E u1 w1 of
             (Panic, u2, w2) \<Rightarrow> (Panic, u2, w2)
           | (Return _, u2, w2) \<Rightarrow> (Return (Some err), u2, w2))
      | (Return (d1, None), u1, w1) \<Rightarrow>
          (case heap w1 (UMLConfig u1) of
             None \<Rightarrow> (Panic, u1, w1)
           | Some c \<Rightarrow>
               (let arg = (if UMLDrive.COW d1 \<noteq> []
                           then ''ubd'' @ string_of_nat i @ ''='' @ UMLDrive.COW d1 @ '','' @
                                UMLDrive.FS d1
                           else ''ubd'' @ string_of_nat i @ ''='' @ UMLDrive.FS d1);
                    w2 = w1\<lparr>heap := (heap w1)(UMLConfig u1 \<mapsto>
                               c\<lparr>UMLConfig.Args := UMLConfig.Args c @ [arg]\<rparr>)\<rparr>
                in uml_Start_range E (Suc i) ds u1 w2)))"

text \<open>\<^verbatim>\<open>func (u *uml) Start() error\<close>. The result of \<^verbatim>\<open>u.writeInterfaceConfig()\<close> is not
  looked at.\<close>

definition uml_Start ::
  "env \<Rightarrow> uml \<Rightarrow> UMLConfig world \<Rightarrow> error option outcome \<times> uml \<times> UMLConfig world" where
  "uml_Start E u w =
     (case uml_writeInterfaceConfig E u w of
        (Panic, u1, w1) \<Rightarrow> (Panic, u1, w1)
      | (Return _, u1, w1) \<Rightarrow>
          (case (heap w1 (UMLConfig u1), uml.tap u1) of
             (Some c, Some t) \<Rightarrow>
               (let c1 = c\<lparr>UMLConfig.Args := UMLConfig.Args c @
                            [''umid='' @ uml.ID u1, ''con0=fd:0,fd:1'', ''con=pts'', ''rw'',
                             ''eth0=tuntap,'' @ Name t, ''hostfs='' @ hostFS c]\<rparr>;
                    c2 = (if UMLConfig.Memory c1 \<noteq> []
                          then c1\<lparr>UMLConfig.Args := UMLConfig.Args c1 @
                                  [''mem='' @ UMLConfig.Memory c1]\<rparr>
                          else c1);
                    w2 = w1\<lparr>heap := (heap w1)(UMLConfig u1 \<mapsto> c2)\<rparr>
                in case uml_Start_range E 0 (UMLConfig.Drives c2) u1 w2 of
                     (Panic, u2, w3) \<Rightarrow> (Panic, u2, w3)
                   | (Return (Some err), u2, w3) \<Rightarrow> (Return (Some err), u2, w3)
                   | (Return None, u2, w3) \<Rightarrow>
                       (case heap w3 (UMLConfig u2) of
                          None \<Rightarrow> (Panic, u2, w3)
                        | Some c3 \<Rightarrow>
                            (case start E
                                    \<lparr>Uid = UMLConfig.User c3, Gid = UMLConfig.Group c3,
                                     execReq.Path = UMLConfig.Path c3,
                                     Argv = ''linux'' # UMLConfig.Args c3,
                                     Env = [''HOME='' @ os_Getenv (os_Environ E) ''HOME''],
                                     Dir = []\<rparr>
                                    (UMLConfig.Out c3) w3 of
                               ((cm, err), w4) \<Rightarrow>
                                 (let u3 = u2\<lparr>uml.cmd := cm\<rparr> in
                                  case err of
                                    None \<Rightarrow> (Return None, u3, w4)
                                  | Some e \<Rightarrow>
                                      (case uml_cleanup E u3 w4 of
                                         (Panic, u4, w5) \<Rightarrow> (Panic, u4, w5)
                                       | (Return _, u4, w5) \<Rightarrow> (Return (Some e), u4, w5))))))
           | _ \<Rightarrow> (Panic, u1, w1)))"

text \<open>\<^verbatim>\<open>func (u *uml) Wait() error\<close> and \<^verbatim>\<open>func (u *uml) Kill() error\<close>. Both defer
  \<^verbatim>\<open>u.cleanup()\<close>, which therefore runs after the call on \<^verbatim>\<open>u.cmd\<close>, also when that call
  panics: with \<^verbatim>\<open>u.cmd\<close> nil, \<^verbatim>\<open>u.cmd.Process\<close> and \<^verbatim>\<open>u.cmd.Wait()\<close> dereference a nil
  pointer. \<^verbatim>\<open>cmd.Wait()\<close> on a command that was not started returns an error;
  \<^verbatim>\<open>Kill\<close> on a nil \<^verbatim>\<open>*os.Process\<close> reads through its receiver.\<close>

definition uml_Wait ::
  "env \<Rightarrow> uml \<Rightarrow> UMLConfig world \<Rightarrow> error option outcome \<times> uml \<times> UMLConfig world" where
  "uml_Wait E u w =
     (case uml.cmd u of
        None \<Rightarrow> (case uml_cleanup E u w of (_, u1, w1) \<Rightarrow> (Panic, u1, w1))
      | Some c \<Rightarrow>
          (case (case Process c of
                   None \<Rightarrow> (Some (Err ''exec: not started''), w)
                 | Some pid \<Rightarrow> os_call E (CmdWait pid) w) of
             (err, w1) \<Rightarrow>
               (case uml_cleanup E u w1 of
                  (Panic, u2, w2) \<Rightarrow> (Panic, u2, w2)
                | (Return _, u2, w2) \<Rightarrow> (Return err, u2, w2))))"

definition uml_Kill ::
  "env \<Rightarrow> uml \<Rightarrow> UMLConfig world \<Rightarrow> error option outcome \<times> uml \<times> UMLConfig world" where
  "uml_Kill E u w =
     (case uml.cmd u of
        None \<Rightarrow> (case uml_cleanup E u w of (_, u1, w1) \<Rightarrow> (Panic, u1, w1))
      | Some c \<Rightarrow>
          (case Process c of
             None \<Rightarrow> (case uml_cleanup E u w of (_, u1, w1) \<Rightarrow> (Panic, u1, w1))
           | Some pid \<Rightarrow>
               (case os_call E (ProcessKill pid) w of
                  (err, w1) \<Rightarrow>
                    (case uml_cleanup E u w1 of
                       (Panic, u2, w2) \<Rightarrow> (Panic, u2, w2)
                     | (Return _, u2, w2) \<Rightarrow> (Return err, u2, w2)))))"

text \<open>\<^verbatim>\<open>func createFS(size int64, uid, gid int) (string, error)\<close> of \<^verbatim>\<open>runner/runner.go\<close>,
  in the UML variant (\<^verbatim>\<open>mkfs.ext4\<close>). \<^verbatim>\<open>CombinedOutput\<close> hands back what the tool
  printed; \<^verbatim>\<open>%q\<close> quotes it.\<close>

definition uml_createFS ::
  "env \<Rightarrow> 64 word \<Rightarrow> go_int \<Rightarrow> go_int \<Rightarrow> 'c world \<Rightarrow> (string \<times> error option) \<times> 'c world" where
  "uml_createFS E sz uid gid w =
     (case ioutil_TempFile E w of
        (Inl err, w1) \<Rightarrow> (([], Some err), w1)
      | (Inr name, w1) \<Rightarrow>
          (case os_call E (FileSeek name sz) w1 of
             (Some err, w2) \<Rightarrow>
               (([], Some err),
                snd (os_call E (Remove name) (snd (os_call E (FileClose name) w2))))
           | (None, w2) \<Rightarrow>
               (case os_call E (FileWrite name [CHR 0x00]) w2 of
                  (Some err, w3) \<Rightarrow>
                    (([], Some err),
                     snd (os_call E (Remove name) (snd (os_call E (FileClose name) w3))))
                | (None, w3) \<Rightarrow>
                    (let w4 = snd (os_call E (FileChown name uid gid) w3);
                         w5 = snd (os_call E (FileClose name) w4);
                         res = tool_output E (trace w5)
                     in case os_call E (CmdCombinedOutput [''mkfs.ext4'', ''-Fq'', name]) w5 of
                          (Some err, w6) \<Rightarrow>
                            (([], Some (Err (''mkfs.ext4 error '' @ Error err @ '' - '' @
                                            strconv_Quote E res))), w6)
                        | (None, w6) \<Rightarrow> ((name, None), w6)))))"

section \<open>The QEMU backend\<close>

text \<open>\<^verbatim>\<open>func (u *VMManager) NewInstance(c *VMConfig) (Instance, error)\<close>\<close>

definition vm_NewInstance ::
  "env \<Rightarrow> VMManager \<Rightarrow> addr \<Rightarrow> VMConfig world \<Rightarrow>
   (vm option \<times> error option) outcome \<times> VMManager \<times> VMConfig world" where
  "vm_NewInstance E m a w =
     (let id = VMManager.nextID m + 1 - 1;
          m1 = m\<lparr>VMManager.nextID := VMManager.nextID m + 1\<rparr>;
          inst = \<lparr>vm.ID = ''flynn'' @ string_of_nat (unat id), VMConfig = a,
                  vm.tap = None, vm.cmd = None, vm.tempFiles = []\<rparr>
      in case heap w a of
           None \<Rightarrow> (Panic, m1, w)
         | Some c \<Rightarrow>
             (let c1 = (if Kernel c = [] then c\<lparr>Kernel := ''vmlinuz''\<rparr> else c);
                  w1 = w\<lparr>heap := (heap w)(a \<mapsto> c1)\<rparr>
              in case (if VMConfig.Out c1 = None then
                         (case os_call E (Create (vm.ID inst @ ''.log'')) w1 of
                            (err, w2) \<Rightarrow>
                              (err, w2\<lparr>heap := (heap w2)(a \<mapsto> c1\<lparr>VMConfig.Out :=
                                 Some (File (if err = None then Some (vm.ID inst @ ''.log'')
                                             else None))\<rparr>)\<rparr>))
                       else (None, w1)) of
                   (Some err, w2) \<Rightarrow> (Return (None, Some err), m1, w2)
                 | (None, w2) \<Rightarrow>
                     (case taps_NewTap E (trace w2) of
                        (t, err) \<Rightarrow>
                          (Return (Some (inst\<lparr>vm.tap := t\<rparr>), err), m1,
                           w2\<lparr>trace := trace w2 @
                                [NewTap (VMConfig.User c1) (VMConfig.Group c1)]\<rparr>))))"

text \<open>\<^verbatim>\<open>func (u *vm) writeInterfaceConfig() error\<close>\<close>

definition vm_writeInterfaceConfig ::
  "env \<Rightarrow> vm \<Rightarrow> VMConfig world \<Rightarrow> error option outcome \<times> vm \<times> VMConfig world" where
  "vm_writeInterfaceConfig E u w =
     (case ioutil_TempDir E w of
        (Inl err, w1) \<Rightarrow> (Return (Some err), u, w1)
      | (Inr dir, w1) \<Rightarrow>
          (let u1 = u\<lparr>vm.tempFiles := vm.tempFiles u @ [dir]\<rparr> in
           case heap w1 (VMConfig u1) of
             None \<Rightarrow> (Panic, u1, w1)
           | Some c \<Rightarrow>
               (let w2 = w1\<lparr>heap := (heap w1)(VMConfig u1 \<mapsto> c\<lparr>netFS := dir\<rparr>)\<rparr> in
                case os_call E (Chmod dir) w2 of
                  (Some err, w3) \<Rightarrow>
                    (Return (Some err), u1, snd (os_call E (RemoveAll dir) w3))
                | (None, w3) \<Rightarrow>
                    (let f = filepath_Join dir ''eth0'' in
                     case os_call E (Create f) w3 of
                       (Some err, w4) \<Rightarrow>
                         (Return (Some err), u1, snd (os_call E (RemoveAll dir) w4))
                     | (None, w4) \<Rightarrow>
                         (case vm.tap u1 of
                            None \<Rightarrow> (Panic, u1, snd (os_call E (FileClose f) w4))
                          | Some t \<Rightarrow>
                              (case os_call E (TapWriteInterfaceConfig t f) w4 of
                                 (err, w5) \<Rightarrow>
                                   (Return err, u1, snd (os_call E (FileClose f) w5))))))))"

text \<open>\<^verbatim>\<open>func (u *vm) cleanup()\<close>\<close>

definition vm_cleanup ::
  "env \<Rightarrow> vm \<Rightarrow> VMConfig world \<Rightarrow> unit outcome \<times> vm \<times> VMConfig world" where
  "vm_cleanup E u w =
     (let w1 = fold (\<lambda>f w. snd (os_call E (RemoveAll f) w)) (vm.tempFiles u) w in
      case vm.tap u of
        None \<Rightarrow> (Panic, u, w1)
      | Some t \<Rightarrow> (Return (), u\<lparr>vm.tempFiles := []\<rparr>, snd (os_call E (TapClose t) w1)))"

text \<open>\<^verbatim>\<open>func (u *vm) tempCOW(image string) (string, error)\<close>. \<^verbatim>\<open>cmd.Run()\<close> leaves the
  tool's output unread: only its error comes back.\<close>

definition vm_tempCOW ::
  "env \<Rightarrow> string \<Rightarrow> vm \<Rightarrow> VMConfig world \<Rightarrow>
   (string \<times> error option) outcome \<times> vm \<times> VMConfig world" where
  "vm_tempCOW E img u w =
     (case ioutil_TempDir E w of
        (Inl err, w1) \<Rightarrow> (Return ([], Some err), u, w1)
      | (Inr dir, w1) \<Rightarrow>
          (let u1 = u\<lparr>vm.tempFiles := vm.tempFiles u @ [dir]\<rparr> in
           case heap w1 (VMConfig u1) of
             None \<Rightarrow> (Panic, u1, w1)
           | Some c \<Rightarrow>
               (case os_call E (Chown dir (VMConfig.User c) (VMConfig.Group c)) w1 of
                  (Some err, w2) \<Rightarrow> (Return ([], Some err), u1, w2)
                | (None, w2) \<Rightarrow>
                    (let path = filepath_Join dir ''fs.img'' in
                     case os_call E
                            (CmdRun [''qemu-img'', ''create'', ''-f'', ''qcow2'', ''-b'', img, path])
                            w2 of
                       (Some err, w3) \<Rightarrow>
                         (Return ([], Some (Err (''failed to create COW filesystem: '' @
                                                  Error err))), u1, w3)
                     | (None, w3) \<Rightarrow>
                         (case os_call E (Chown path (VMConfig.User c) (VMConfig.Group c)) w3 of
                            (Some err, w4) \<Rightarrow> (Return ([], Some err), u1, w4)
                          | (None, w4) \<Rightarrow> (Return (path, None), u1, w4))))))"

text \<open>The loop \<^verbatim>\<open>for i, d := range u.Drives\<close> of \<^verbatim>\<open>Start\<close> over the keys still to
  visit.\<close>

fun vm_Start_range ::
  "env \<Rightarrow> string list \<Rightarrow> (string \<rightharpoonup> VMDrive) \<Rightarrow> vm \<Rightarrow> VMConfig world \<Rightarrow>
   error option outcome \<times> vm \<times> VMConfig world" where
  "vm_Start_range E [] m u w = (Return None, u, w)"
| "vm_Start_range E (i # keys) m u w =
     (case m i of
        None \<Rightarrow> vm_Start_range E keys m u w
      | Some d \<Rightarrow>
          (case (if VMDrive.TempCOW d then vm_tempCOW E (VMDrive.FS d) u w
                 else (Return (VMDrive.FS d, None), u, w)) of
             (Panic, u1, w1) \<Rightarrow> (Panic, u1, w1)
           | (Return (fs, Some err), u1, w1) \<Rightarrow>
               (case vm_cleanup E u1 w1 of
                  (Panic, u2, w2) \<Rightarrow> (Panic, u2, w2)
                | (Return _, u2, w2) \<Rightarrow> (Return (Some err), u2, w2))
           | (Return (fs, None), u1, w1) \<Rightarrow>
               (case heap w1 (VMConfig u1) of
                  None \<Rightarrow> (Panic, u1, w1)
                | Some c \<Rightarrow>
                    vm_Start_range E keys m u1
                      (w1\<lparr>heap := (heap w1)(VMConfig u1 \<mapsto>
                             c\<lparr>VMConfig.Args := VMConfig.Args c @ [''-'' @ i, fs]\<rparr>)\<rparr>))))"

text \<open>\<^verbatim>\<open>func (u *vm) Start() error\<close>\<close>

definition vm_Start ::
  "env \<Rightarrow> vm \<Rightarrow> VMConfig world \<Rightarrow> error option outcome \<times> vm \<times> VMConfig world" where
  "vm_Start E u w =
     (case vm_writeInterfaceConfig E u w of
        (Panic, u1, w1) \<Rightarrow> (Panic, u1, w1)
      | (Return _, u1, w1) \<Rightarrow>
          (case (heap w1 (VMConfig u1), vm.tap u1) of
             (Some c, Some t) \<Rightarrow>
               (let c1 = c\<lparr>VMConfig.Args := VMConfig.Args c @
                            [''-kernel'', Kernel c,
                             ''-append'', [CHR 0x22] @ ''root=/dev/sda'' @ [CHR 0x22],
                             ''-net'', ''nic'',
                             ''-net'', ''tap,ifname='' @ Name t @ '',script=no,downscript=no'',
                             ''-virtfs'', ''fsdriver=local,path='' @ netFS c @
                               '',security_model=passthrough,readonly,mount_tag=netfs'',
                             ''-nographic'']\<rparr>;
                    c2 = (if VMConfig.Memory c1 \<noteq> []
                          then c1\<lparr>VMConfig.Args := VMConfig.Args c1 @
                                  [''-m'', VMConfig.Memory c1]\<rparr>
                          else c1);
                    w2 = w1\<lparr>heap := (heap w1)(VMConfig u1 \<mapsto> c2)\<rparr>
                in case vm_Start_range E (range_Drives E (VMConfig.Drives c2))
                          (VMConfig.Drives c2) u1 w2 of
                     (Panic, u2, w3) \<Rightarrow> (Panic, u2, w3)
                   | (Return (Some err), u2, w3) \<Rightarrow> (Return (Some err), u2, w3)
                   | (Return None, u2, w3) \<Rightarrow>
                       (case heap w3 (VMConfig u2) of
                          None \<Rightarrow> (Panic, u2, w3)
                        | Some c3 \<Rightarrow>
                            (case start E
                                    \<lparr>Uid = VMConfig.User c3, Gid = VMConfig.Group c3,
                                     execReq.Path = ''/usr/bin/qemu-system-x86_64'',
                                     Argv = ''/usr/bin/qemu-system-x86_64'' # VMConfig.Args c3,
                                     Env = [''HOME='' @ os_Getenv (os_Environ E) ''HOME''],
                                     Dir = []\<rparr>
                                    (VMConfig.Out c3) w3 of
                               ((cm, err), w4) \<Rightarrow>
                                 (let u3 = u2\<lparr>vm.cmd := cm\<rparr> in
                                  case err of
                                    None \<Rightarrow> (Return None, u3, w4)
                                  | Some e \<Rightarrow>
                                      (case vm_cleanup E u3 w4 of
                                         (Panic, u4, w5) \<Rightarrow> (Panic, u4, w5)
                                       | (Return _, u4, w5) \<Rightarrow> (Return (Some e), u4, w5))))))
           | _ \<Rightarrow> (Panic, u1, w1)))"

text \<open>\<^verbatim>\<open>func (u *vm) Wait() error\<close> and \<^verbatim>\<open>func (u *vm) Kill() error\<close>\<close>

definition vm_Wait ::
  "env \<Rightarrow> vm \<Rightarrow> VMConfig world \<Rightarrow> error option outcome \<times> vm \<times> VMConfig world" where
  "vm_Wait E u w =
     (case vm.cmd u of
        None \<Rightarrow> (case vm_cleanup E u w of (_, u1, w1) \<Rightarrow> (Panic, u1, w1))
      | Some c \<Rightarrow>
          (case (case Process c of
                   None \<Rightarrow> (Some (Err ''exec: not started''), w)
                 | Some pid \<Rightarrow> os_call E (CmdWait pid) w) of
             (err, w1) \<Rightarrow>
               (case vm_cleanup E u w1 of
                  (Panic, u2, w2) \<Rightarrow> (Panic, u2, w2)
                | (Return _, u2, w2) \<Rightarrow> (Return err, u2, w2))))"

definition vm_Kill ::
  "env \<Rightarrow> vm \<Rightarrow> VMConfig world \<Rightarrow> error option outcome \<times> vm \<times> VMConfig world" where
  "vm_Kill E u w =
     (case vm.cmd u of
        None \<Rightarrow> (case vm_cleanup E u w of (_, u1, w1) \<Rightarrow> (Panic, u1, w1))
      | Some c \<Rightarrow>
          (case Process c of
             None \<Rightarrow> (case vm_cleanup E u w of (_, u1, w1) \<Rightarrow> (Panic, u1, w1))
           | Some pid \<Rightarrow>
               (case os_call E (ProcessKill pid) w of
                  (err, w1) \<Rightarrow>
                    (case vm_cleanup E u w1 of
                       (Panic, u2, w2) \<Rightarrow> (Panic, u2, w2)
                     | (Return _, u2, w2) \<Rightarrow> (Return err, u2, w2)))))"

text \<open>\<^verbatim>\<open>createFS\<close> in the QEMU variant of the runner (\<^verbatim>\<open>mkfs.btrfs\<close>).\<close>

definition vm_createFS ::
  "env \<Rightarrow> 64 word \<Rightarrow> go_int \<Rightarrow> go_int \<Rightarrow> 'c world \<Rightarrow> (string \<times> error option) \<times> 'c world" where
  "vm_createFS E sz uid gid w =
     (case ioutil_TempFile E w of
        (Inl err, w1) \<Rightarrow> (([], Some err), w1)
      | (Inr name, w1) \<Rightarrow>
          (case os_call E (FileSeek name sz) w1 of
             (Some err, w2) \<Rightarrow>
               (([], Some err),
                snd (os_call E (Remove name) (snd (os_call E (FileClose name) w2))))
           | (None, w2) \<Rightarrow>
               (case os_call E (FileWrite name [CHR 0x00]) w2 of
                  (Some err, w3) \<Rightarrow>
                    (([], Some err),
                     snd (os_call E (Remove name) (snd (os_call E (FileClose name) w3))))
                | (None, w3) \<Rightarrow>
                    (let w4 = snd (os_call E (FileChown name uid gid) w3);
                         w5 = snd (os_call E (FileClose name) w4);
                         res = tool_output E (trace w5)
                     in case os_call E (CmdCombinedOutput [''mkfs.btrfs'', name]) w5 of
                          (Some err, w6) \<Rightarrow>
                            (([], Some (Err (''mkfs.btrfs error '' @ Error err @ '' - '' @
                                            strconv_Quote E res))), w6)
                        | (None, w6) \<Rightarrow> ((name, None), w6)))))"

section \<open>Concrete environments and instances\<close>

text \<open>An environment in which every call succeeds, and one config per backend stored
  at address 0. The environments in which something fails are variations of it.\<close>

definition tap0 :: Tap where
  "tap0 = \<lparr>Name = ''flynntap0'', RemoteIP = ''192.168.53.2''\<rparr>"

definition env_ok :: env where
  "env_ok =
     \<lparr>os_error = (\<lambda>tr ev. None),
      os_TempDir = (\<lambda>tr. Inr (''/tmp/'' @ string_of_nat (length tr))),
      os_TempFile = (\<lambda>tr. Inr (''/tmp/'' @ string_of_nat (length tr))),
      os_StartProcess = (\<lambda>tr. Inr 4242),
      taps_NewTap = (\<lambda>tr. (Some tap0, None)),
      tool_output = (\<lambda>tr. []),
      os_Args0 = ''flynn-test'',
      os_Environ = [''HOME=/root''],
      range_Drives = (\<lambda>m. [''hdb'', ''hda'']),
      strconv_Quote = (\<lambda>s. [CHR 0x22] @ s @ [CHR 0x22])\<rparr>"

definition uml_config0 :: UMLConfig where
  "uml_config0 =
     \<lparr>UMLConfig.Path = ''linux'', User = 1000, Group = 1000, Memory = ''512MB'',
      Drives = [\<lparr>UMLDrive.FS = ''rootfs.img'', COW = [], TempCOW = True\<rparr>],
      Args = [], Out = Some (Writer 1), hostFS = []\<rparr>"

definition vm_config0 :: VMConfig where
  "vm_config0 =
     \<lparr>Kernel = ''vmlinuz'', User = 1000, Group = 1000, Memory = ''512'',
      Drives = [''hda'' \<mapsto> \<lparr>VMDrive.FS = ''rootfs.img'', COW = [], TempCOW = True\<rparr>,
                ''hdb'' \<mapsto> \<lparr>VMDrive.FS = ''data.img'', COW = [], TempCOW = False\<rparr>],
      Args = [], Out = Some (Writer 1), netFS = []\<rparr>"

definition uml_world0 :: "UMLConfig world" where
  "uml_world0 = \<lparr>trace = [], heap = [0 \<mapsto> uml_config0]\<rparr>"

definition vm_world0 :: "VMConfig world" where
  "vm_world0 = \<lparr>trace = [], heap = [0 \<mapsto> vm_config0]\<rparr>"

text \<open>The instances \<^verbatim>\<open>NewInstance\<close> builds from them.\<close>

definition uml_new0 :: uml where
  "uml_new0 =
     \<lparr>uml.ID = ''flynn0'', UMLConfig = 0, tap = Some tap0, cmd = None, tempFiles = []\<rparr>"

definition vm_new0 :: vm where
  "vm_new0 =
     \<lparr>vm.ID = ''flynn0'', VMConfig = 0, tap = Some tap0, cmd = None, tempFiles = []\<rparr>"

text \<open>The allocator has no endpoint left.\<close>

definition env_no_tap :: env where
  "env_no_tap = env_ok\<lparr>taps_NewTap := (\<lambda>tr. (None, Some (Err ''tap: IP exhaustion'')))\<rparr>"

text \<open>A started instance of each backend, a request, and the environment of the child
  process that \<^verbatim>\<open>start\<close> spawns for it.\<close>

definition cmd0 :: Cmd where
  "cmd0 = \<lparr>cmd_Path = ''flynn-test'', cmd_Env = [], Stdout = Some (Writer 1),
           Stderr = Some (Writer 1), Process = Some 4242\<rparr>"

definition uml_started0 :: uml where
  "uml_started0 =
     \<lparr>uml.ID = ''flynn0'', UMLConfig = 0, tap = Some tap0, cmd = Some cmd0,
      tempFiles = [''/tmp/2'', ''/tmp/7'']\<rparr>"

definition vm_started0 :: vm where
  "vm_started0 =
     \<lparr>vm.ID = ''flynn0'', VMConfig = 0, tap = Some tap0, cmd = Some cmd0,
      tempFiles = [''/tmp/2'', ''/tmp/7'']\<rparr>"

definition req0 :: execReq where
  "req0 = \<lparr>Uid = 1000, Gid = 1000, Path = ''linux'', Argv = [''linux'', ''mem=512MB''],
           Env = [''HOME=/root''], Dir = []\<rparr>"

definition env_child :: env where
  "env_child = env_ok\<lparr>os_Environ := [''_EXEC_REQ='' @ encodeReq req0]\<rparr>"

text \<open>A request that keeps the caller's identity (uid and gid 0, no directory), and the
  environment of its child.\<close>

definition req_root :: execReq where
  "req_root = \<lparr>Uid = 0, Gid = 0, Path = ''/bin/true'', Argv = [''/bin/true''],
               Env = [], Dir = []\<rparr>"

definition env_root_child :: env where
  "env_root_child = env_ok\<lparr>os_Environ := [''_EXEC_REQ='' @ encodeReq req_root]\<rparr>"

text \<open>Environments in which one kind of call fails: the external tools (which print a
  diagnosis), the creation of temporary directories, the changes of ownership.\<close>

definition env_tool_fails :: env where
  "env_tool_fails =
     env_ok\<lparr>os_error := (\<lambda>tr ev. case ev of
                               CmdRun argv \<Rightarrow> Some (Err ''exit status 1'')
                             | CmdCombinedOutput argv \<Rightarrow> Some (Err ''exit status 1'')
                             | _ \<Rightarrow> None),
            tool_output := (\<lambda>tr. ''No space left on device'')\<rparr>"

definition env_no_tmp :: env where
  "env_no_tmp = env_ok\<lparr>os_TempDir := (\<lambda>tr. Inl (Err ''mkdir /tmp: read-only file system''))\<rparr>"

definition env_no_chown :: env where
  "env_no_chown =
     env_ok\<lparr>os_error := (\<lambda>tr ev. case ev of
                               Chown p uid gid \<Rightarrow> Some (Err ''operation not permitted'')
                             | _ \<Rightarrow> None)\<rparr>"

section \<open>Vocabulary of the claims\<close>

text \<open>The calls the privilege drop is claimed to make, in the claimed order: the group
  id when the target gid is positive, then the user id when the target uid is positive,
  then the change of directory when one is given, then the announcement and the exec.\<close>

definition spec_drop_sequence :: "execReq \<Rightarrow> event list" where
  "spec_drop_sequence req =
     (if 0 <s Gid req then [Setgid (Gid req)] else []) @
     (if 0 <s Uid req then [Setuid (Uid req)] else []) @
     (if Dir req \<noteq> [] then [Chdir (Dir req)] else []) @
     [Println ''execing'' (execReq.Path req) (Argv req),
      Exec (execReq.Path req) (Argv req) (Env req)]"

fun is_Println :: "event \<Rightarrow> bool" where
  "is_Println (Println a b c) = True"
| "is_Println _ = False"

text \<open>Running a list of calls from a given history until the first one that fails (the
  result of printing is never looked at): the calls made, and the failure if any.\<close>

fun run_calls :: "env \<Rightarrow> event list \<Rightarrow> event list \<Rightarrow> event list \<times> error option" where
  "run_calls E tr [] = ([], None)"
| "run_calls E tr (ev # evs) =
     (case (if is_Println ev then None else os_error E tr ev) of
        Some err \<Rightarrow> ([ev], Some err)
      | None \<Rightarrow> (case run_calls E (tr @ [ev]) evs of (dn, r) \<Rightarrow> (ev # dn, r)))"


text \<open>The bytes a request holds. A Go value lives in a 64-bit address space, which
  bounds this far below \<open>2^60\<close>. Such a request \<open>fits\<close>: every length in it can be
  written as a \<^verbatim>\<open>uint64\<close>.\<close>

definition req_size :: "execReq \<Rightarrow> nat" where
  "req_size r =
     length (execReq.Path r) + length (Dir r) +
     sum_list (map (\<lambda>s. length s + 1) (Argv r)) + sum_list (map (\<lambda>s. length s + 1) (Env r))"

definition fits :: "execReq \<Rightarrow> bool" where
  "fits r \<longleftrightarrow>
     length (execReq.Path r) < 2 ^ 64 \<and> length (Dir r) < 2 ^ 64 \<and>
     length (Argv r) < 2 ^ 64 \<and> (\<forall>s \<in> set (Argv r). length s < 2 ^ 64) \<and>
     length (Env r) < 2 ^ 64 \<and> (\<forall>s \<in> set (Env r). length s < 2 ^ 64)"


section \<open>Calls and traces\<close>

lemma trace_os_call [simp]: "trace (snd (os_call E ev w)) = trace w @ [ev]"
  by (simp add: os_call_def)

lemma heap_os_call [simp]: "heap (snd (os_call E ev w)) = heap w"
  by (simp add: os_call_def)

lemma fst_os_call [simp]: "fst (os_call E ev w) = os_error E (trace w) ev"
  by (simp add: os_call_def)

lemma fold_RemoveAll:
  "fold (\<lambda>f w. w\<lparr>trace := trace w @ [RemoveAll f]\<rparr>) fs (w :: 'c world) =
   w\<lparr>trace := trace w @ map RemoveAll fs\<rparr>"
  by (induction fs arbitrary: w) simp_all

lemma string_of_nat_digit [simp]: "n < 10 \<Longrightarrow> string_of_nat n = [''0123456789'' ! n]"
  by (simp add: string_of_nat.simps)

section \<open>Cleanup\<close>

text \<open>With an endpoint at hand, \<^verbatim>\<open>cleanup\<close> removes the registered paths in order, closes
  the endpoint and forgets the paths.\<close>

lemma uml_cleanup_Some:
  "uml.tap u = Some t \<Longrightarrow>
   uml_cleanup E u w =
     (Return (), u\<lparr>uml.tempFiles := []\<rparr>,
      w\<lparr>trace := trace w @ map RemoveAll (uml.tempFiles u) @ [TapClose t]\<rparr>)"
  by (simp add: uml_cleanup_def Let_def fold_RemoveAll os_call_def)

lemma vm_cleanup_Some:
  "vm.tap u = Some t \<Longrightarrow>
   vm_cleanup E u w =
     (Return (), u\<lparr>vm.tempFiles := []\<rparr>,
      w\<lparr>trace := trace w @ map RemoveAll (vm.tempFiles u) @ [TapClose t]\<rparr>)"
  by (simp add: vm_cleanup_def Let_def fold_RemoveAll os_call_def)

section \<open>NewInstance\<close>

lemma uml_NewInstance_cmd:
  "uml_NewInstance E m a w = (Return (Some u, err), m', w') \<Longrightarrow>
   uml.cmd u = None \<and> uml.tempFiles u = []"
  by (auto simp: uml_NewInstance_def Let_def split: option.splits prod.splits if_splits)

lemma vm_NewInstance_cmd:
  "vm_NewInstance E m a w = (Return (Some u, err), m', w') \<Longrightarrow>
   vm.cmd u = None \<and> vm.tempFiles u = []"
  by (auto simp: vm_NewInstance_def Let_def split: option.splits prod.splits if_splits)

lemma uml_NewInstance_env_ok:
  "uml_NewInstance env_ok \<lparr>UMLManager.nextID = 0\<rparr> 0 uml_world0 =
     (Return (Some uml_new0, None), \<lparr>UMLManager.nextID = 1\<rparr>,
      uml_world0\<lparr>trace := [NewTap 1000 1000]\<rparr>)"
  by (simp add: uml_NewInstance_def env_ok_def uml_world0_def uml_config0_def uml_new0_def
        Let_def)

lemma vm_NewInstance_env_ok:
  "vm_NewInstance env_ok \<lparr>VMManager.nextID = 0\<rparr> 0 vm_world0 =
     (Return (Some vm_new0, None), \<lparr>VMManager.nextID = 1\<rparr>,
      vm_world0\<lparr>trace := [NewTap 1000 1000]\<rparr>)"
  by (simp add: vm_NewInstance_def env_ok_def vm_world0_def vm_config0_def vm_new0_def Let_def)

text \<open>When the log file cannot be created, \<^verbatim>\<open>NewInstance\<close> returns the nil instance
  with the error.\<close>

lemma uml_NewInstance_log_failure:
  "heap w a = Some c \<Longrightarrow> UMLConfig.Out c = None \<Longrightarrow>
   os_error E (trace w)
     (Create (''flynn'' @ string_of_nat (unat (UMLManager.nextID m)) @ ''.log'')) = Some e \<Longrightarrow>
   fst (uml_NewInstance E m a w) = Return (None, Some e)"
  by (auto simp: uml_NewInstance_def os_call_def Let_def)

lemma vm_NewInstance_log_failure:
  "heap w a = Some c \<Longrightarrow> VMConfig.Out c = None \<Longrightarrow>
   os_error E (trace w)
     (Create (''flynn'' @ string_of_nat (unat (VMManager.nextID m)) @ ''.log'')) = Some e \<Longrightarrow>
   fst (vm_NewInstance E m a w) = Return (None, Some e)"
  by (auto simp: vm_NewInstance_def os_call_def Let_def)

section \<open>Kill on an instance that was never started\<close>

lemma uml_Kill_unstarted:
  "uml.cmd u = None \<Longrightarrow> uml.tempFiles u = [] \<Longrightarrow>
   fst (uml_Kill E u w) = Panic \<and>
   (\<forall>t. uml.tap u = Some t \<longrightarrow> trace (snd (snd (uml_Kill E u w))) = trace w @ [TapClose t])"
  by (auto simp: uml_Kill_def uml_cleanup_Some split: prod.splits)

lemma vm_Kill_unstarted:
  "vm.cmd u = None \<Longrightarrow> vm.tempFiles u = [] \<Longrightarrow>
   fst (vm_Kill E u w) = Panic \<and>
   (\<forall>t. vm.tap u = Some t \<longrightarrow> trace (snd (snd (vm_Kill E u w))) = trace w @ [TapClose t])"
  by (auto simp: vm_Kill_def vm_cleanup_Some split: prod.splits)

text \<open>
  Claim C1. \<^verbatim>\<open>NewInstance\<close> followed at once by \<^verbatim>\<open>Kill\<close> is claimed not to panic and
  not to leak the endpoint. On both backends the endpoint is released, by the deferred
  \<^verbatim>\<open>cleanup\<close>: the only new event is the endpoint's \<^verbatim>\<open>Close\<close>. But the call does panic:
  \<^verbatim>\<open>u.cmd\<close> is still nil, and \<^verbatim>\<open>u.cmd.Process\<close> dereferences it.
\<close>

theorem C1_Kill_without_Start_panics:
  "(uml_NewInstance E m a w = (Return (Some u, err), m', w') \<longrightarrow>
      fst (uml_Kill E u w') = Panic \<and>
      (\<forall>t. uml.tap u = Some t \<longrightarrow>
         trace (snd (snd (uml_Kill E u w'))) = trace w' @ [TapClose t])) \<and>
   (vm_NewInstance E vm_m va vw = (Return (Some v, verr), vm_m', vw') \<longrightarrow>
      fst (vm_Kill E v vw') = Panic \<and>
      (\<forall>t. vm.tap v = Some t \<longrightarrow>
         trace (snd (snd (vm_Kill E v vw'))) = trace vw' @ [TapClose t]))"
  using uml_NewInstance_cmd [of E m a w u err m' w'] uml_Kill_unstarted [of u E w']
        vm_NewInstance_cmd [of E vm_m va vw v verr vm_m' vw'] vm_Kill_unstarted [of v E vw']
  by blast

theorem C1_Kill_without_Start_witness:
  "fst (uml_Kill env_ok uml_new0 (uml_world0\<lparr>trace := [NewTap 1000 1000]\<rparr>)) = Panic \<and>
   trace (snd (snd (uml_Kill env_ok uml_new0 (uml_world0\<lparr>trace := [NewTap 1000 1000]\<rparr>)))) =
     [NewTap 1000 1000, TapClose tap0] \<and>
   fst (vm_Kill env_ok vm_new0 (vm_world0\<lparr>trace := [NewTap 1000 1000]\<rparr>)) = Panic \<and>
   trace (snd (snd (vm_Kill env_ok vm_new0 (vm_world0\<lparr>trace := [NewTap 1000 1000]\<rparr>)))) =
     [NewTap 1000 1000, TapClose tap0]"
  using C1_Kill_without_Start_panics
          [of env_ok "\<lparr>UMLManager.nextID = 0\<rparr>" 0 uml_world0 uml_new0 None
              "\<lparr>UMLManager.nextID = 1\<rparr>" "uml_world0\<lparr>trace := [NewTap 1000 1000]\<rparr>"
              "\<lparr>VMManager.nextID = 0\<rparr>" 0 vm_world0 vm_new0 None
              "\<lparr>VMManager.nextID = 1\<rparr>" "vm_world0\<lparr>trace := [NewTap 1000 1000]\<rparr>"]
  by (simp add: uml_NewInstance_env_ok vm_NewInstance_env_ok uml_new0_def vm_new0_def)

text \<open>
  Claim C2. A failing \<^verbatim>\<open>NewInstance\<close> is claimed to return no instance with its error.
  That holds when the log file cannot be created (\<open>uml_NewInstance_log_failure\<close>). When
  the allocator fails, \<^verbatim>\<open>return inst, err\<close> hands the caller the error together with a
  non-nil instance whose endpoint is whatever the allocator returned.
\<close>

theorem C2_NewInstance_returns_instance_with_error:
  "(heap w a = Some c \<and> UMLConfig.Out c = Some out \<and>
    taps_NewTap E (trace w) = (t, Some e) \<longrightarrow>
      (\<exists>inst m' w'. uml_NewInstance E m a w = (Return (Some inst, Some e), m', w') \<and>
                     uml.tap inst = t)) \<and>
   (heap vw va = Some vc \<and> VMConfig.Out vc = Some vout \<and>
    taps_NewTap E (trace vw) = (t, Some e) \<longrightarrow>
      (\<exists>inst m' w'. vm_NewInstance E vm_m va vw = (Return (Some inst, Some e), m', w') \<and>
                     vm.tap inst = t))"
  by (auto simp: uml_NewInstance_def vm_NewInstance_def Let_def)

theorem C2_NewInstance_witness:
  "(\<exists>inst m' w'. uml_NewInstance env_no_tap \<lparr>UMLManager.nextID = 0\<rparr> 0 uml_world0 =
       (Return (Some inst, Some (Err ''tap: IP exhaustion'')), m', w') \<and>
     uml.tap inst = None) \<and>
   (\<exists>inst m' w'. vm_NewInstance env_no_tap \<lparr>VMManager.nextID = 0\<rparr> 0 vm_world0 =
       (Return (Some inst, Some (Err ''tap: IP exhaustion'')), m', w') \<and>
     vm.tap inst = None)"
  using C2_NewInstance_returns_instance_with_error
          [of uml_world0 0 uml_config0 "Writer 1" env_no_tap None "Err ''tap: IP exhaustion''"
              "\<lparr>UMLManager.nextID = 0\<rparr>" vm_world0 0 vm_config0 "Writer 1"
              "\<lparr>VMManager.nextID = 0\<rparr>"]
  by (simp add: uml_world0_def vm_world0_def uml_config0_def vm_config0_def env_no_tap_def
        env_ok_def)

section \<open>base64: decoding undoes encoding\<close>

lemma index_from_nth:
  "distinct xs \<Longrightarrow> n < length xs \<Longrightarrow> index_from i (xs ! n) xs = Some (i + n)"
proof (induction xs arbitrary: i n)
  case Nil
  then show ?case by simp
next
  case (Cons x xs)
  show ?case
  proof (cases n)
    case 0
    then show ?thesis by simp
  next
    case (Suc k)
    with Cons.prems have "xs ! k \<in> set xs" by simp
    with Cons.prems have "x \<noteq> xs ! k" by auto
    with Suc Cons.prems Cons.IH [of k "Suc i"] show ?thesis by simp
  qed
qed

lemma distinct_encodeStd: "distinct encodeStd"
  by (simp add: encodeStd_def)

lemma length_encodeStd: "length encodeStd = 64"
  by (simp add: encodeStd_def)

lemma decodeMap_b64_char: "decodeMap (b64_char n) = Some (n mod 64)"
  using index_from_nth [OF distinct_encodeStd, of "n mod 64" 0]
  by (simp add: decodeMap_def b64_char_def length_encodeStd)

lemma b64_char_in: "b64_char n \<in> set encodeStd"
  by (simp add: b64_char_def length_encodeStd)

lemma b64_char_not_special:
  "b64_char n \<noteq> CHR ''=''" "b64_char n \<noteq> CHR 0x0A" "b64_char n \<noteq> CHR 0x0D"
  using b64_char_in [of n] by (auto simp: encodeStd_def)

lemma sextets:
  fixes v :: nat
  assumes "v < 16777216"
  shows "(v div 262144 mod 64) * 262144 + (v div 4096 mod 64) * 4096 + (v div 64 mod 64) * 64 +
         v mod 64 = v"
proof -
  define q1 where "q1 = v div 64"
  define q2 where "q2 = q1 div 64"
  define q3 where "q3 = q2 div 64"
  have d2: "v div 4096 = q2"
    unfolding q2_def q1_def by (simp add: div_mult2_eq [symmetric])
  have d3: "v div 262144 = q3"
    unfolding q3_def q2_def q1_def by (simp add: div_mult2_eq [symmetric])
  have "q3 < 64"
    using assms unfolding d3 [symmetric] by (simp add: less_mult_imp_div_less)
  then have m3: "q3 mod 64 = q3" by simp
  have e1: "v = q1 * 64 + v mod 64" unfolding q1_def by simp
  have e2: "q1 = q2 * 64 + q1 mod 64" unfolding q2_def by simp
  have e3: "q2 = q3 * 64 + q2 mod 64" unfolding q3_def by simp
  show ?thesis
    unfolding d2 d3 m3 q1_def [symmetric]
    using e1 e2 e3 by linarith
qed

lemma sextets_upper:
  fixes v :: nat
  assumes "v < 16777216"
  shows "(v div 262144 mod 64) * 4096 + (v div 4096 mod 64) * 64 + v div 64 mod 64 = v div 64"
    and "(v div 262144 mod 64) * 64 + v div 4096 mod 64 = v div 4096"
proof -
  define q1 where "q1 = v div 64"
  define q2 where "q2 = q1 div 64"
  define q3 where "q3 = q2 div 64"
  have d2: "v div 4096 = q2"
    unfolding q2_def q1_def by (simp add: div_mult2_eq [symmetric])
  have d3: "v div 262144 = q3"
    unfolding q3_def q2_def q1_def by (simp add: div_mult2_eq [symmetric])
  have "q3 < 64"
    using assms unfolding d3 [symmetric] by (simp add: less_mult_imp_div_less)
  then have m3: "q3 mod 64 = q3" by simp
  have e2: "q1 = q2 * 64 + q1 mod 64" unfolding q2_def by simp
  have e3: "q2 = q3 * 64 + q2 mod 64" unfolding q3_def by simp
  show "(v div 262144 mod 64) * 4096 + (v div 4096 mod 64) * 64 + v div 64 mod 64 = v div 64"
    unfolding d2 d3 m3 q1_def [symmetric]
    using e2 e3 by linarith
  show "(v div 262144 mod 64) * 64 + v div 4096 mod 64 = v div 4096"
    unfolding d2 d3 m3 using e3 by linarith
qed

lemma of_char_lt [simp]: "(of_char c :: nat) < 256"
  using of_char_mod_256 [where ?'a = nat, of c] by (metis mod_less_divisor zero_less_numeral)

lemma char_of_add_256 [simp]: "char_of (x + k * 256 :: nat) = char_of x"
  by (simp add: char_of_eq_iff take_bit_eq_mod)

lemma octets:
  fixes a b c :: nat
  assumes "a < 256" "b < 256" "c < 256"
  shows "(a * 65536 + b * 256 + c) div 65536 = a"
    and "char_of ((a * 65536 + b * 256 + c) div 256) = char_of b"
    and "char_of (a * 65536 + b * 256 + c) = char_of c"
proof -
  have lt: "b * 256 + c < 65536" using assms by simp
  have "(a * 65536 + b * 256 + c) div 65536 = (b * 256 + c + a * 65536) div 65536"
    by (simp add: add.commute add.left_commute)
  also have "\<dots> = a" using lt by simp
  finally show "(a * 65536 + b * 256 + c) div 65536 = a" .
  have "(a * 65536 + b * 256 + c) div 256 = (c + (a * 256 + b) * 256) div 256"
    by (simp add: algebra_simps)
  also have "\<dots> = a * 256 + b" using assms by simp
  finally have "(a * 65536 + b * 256 + c) div 256 = b + a * 256" by simp
  then show "char_of ((a * 65536 + b * 256 + c) div 256) = char_of b"
    by simp
  have "a * 65536 + b * 256 + c = c + (a * 256 + b) * 256" by (simp add: algebra_simps)
  then show "char_of (a * 65536 + b * 256 + c) = char_of c"
    by (simp only: char_of_add_256)
qed

lemma quantum3:
  fixes a b c :: nat
  assumes "a < 256" "b < 256" "c < 256"
  defines "v \<equiv> a * 65536 + b * 256 + c"
  shows "[char_of (((v div 262144 mod 64) * 262144 + (v div 4096 mod 64) * 4096 +
                    (v div 64 mod 64) * 64 + v mod 64) div 65536),
          char_of (((v div 262144 mod 64) * 262144 + (v div 4096 mod 64) * 4096 +
                    (v div 64 mod 64) * 64 + v mod 64) div 256),
          char_of ((v div 262144 mod 64) * 262144 + (v div 4096 mod 64) * 4096 +
                    (v div 64 mod 64) * 64 + v mod 64)] =
         [char_of a, char_of b, char_of c]"
proof -
  have lt: "v < 16777216" using assms(1-3) by (simp add: v_def)
  note o = octets [OF assms(1-3), folded v_def]
  show ?thesis
    unfolding sextets [OF lt] by (simp only: o)
qed

lemma quantum2:
  fixes a b :: nat
  assumes "a < 256" "b < 256"
  defines "v \<equiv> a * 65536 + b * 256"
  shows "[char_of (((v div 262144 mod 64) * 4096 + (v div 4096 mod 64) * 64 +
                    v div 64 mod 64) div 1024),
          char_of (((v div 262144 mod 64) * 4096 + (v div 4096 mod 64) * 64 +
                    v div 64 mod 64) div 4)] =
         [char_of a, char_of b]"
proof -
  have lt: "v < 16777216" using assms(1,2) by (simp add: v_def)
  have d: "v div 64 div 1024 = v div 65536" "v div 64 div 4 = v div 256"
    by (simp_all add: div_mult2_eq [symmetric])
  have "(0::nat) < 256" by simp
  note o = octets [OF assms(1,2) this, unfolded add_0_right, folded v_def]
  show ?thesis
    unfolding sextets_upper [OF lt] d by (simp only: o)
qed

lemma quantum1:
  fixes a :: nat
  assumes "a < 256"
  defines "v \<equiv> a * 65536"
  shows "char_of (((v div 262144 mod 64) * 64 + v div 4096 mod 64) div 16) = char_of a"
proof -
  have lt: "v < 16777216" using assms(1) by (simp add: v_def)
  have d: "v div 4096 div 16 = v div 65536"
    by (simp add: div_mult2_eq [symmetric])
  have "v div 65536 = a" by (simp add: v_def)
  then show ?thesis
    unfolding sextets_upper [OF lt] d by (simp only:)
qed

lemma b64_quantum3:
  "b64_quanta (b64_char (v div 262144) # b64_char (v div 4096) # b64_char (v div 64) #
               b64_char v # cs) =
   (case b64_quanta cs of
      Inl e \<Rightarrow> Inl e
    | Inr bs \<Rightarrow>
        Inr ([char_of (((v div 262144 mod 64) * 262144 + (v div 4096 mod 64) * 4096 +
                        (v div 64 mod 64) * 64 + v mod 64) div 65536),
              char_of (((v div 262144 mod 64) * 262144 + (v div 4096 mod 64) * 4096 +
                        (v div 64 mod 64) * 64 + v mod 64) div 256),
              char_of ((v div 262144 mod 64) * 262144 + (v div 4096 mod 64) * 4096 +
                        (v div 64 mod 64) * 64 + v mod 64)] @ bs))"
  by (simp only: b64_quanta.simps decodeMap_b64_char b64_char_not_special Let_def
        prod.case option.case simp_thms if_False)

lemma b64_quantum2:
  "b64_quanta [b64_char (v div 262144), b64_char (v div 4096), b64_char (v div 64), CHR ''=''] =
   Inr [char_of (((v div 262144 mod 64) * 4096 + (v div 4096 mod 64) * 64 +
                    v div 64 mod 64) div 1024),
          char_of (((v div 262144 mod 64) * 4096 + (v div 4096 mod 64) * 64 +
                    v div 64 mod 64) div 4)]"
  by (simp only: b64_quanta.simps decodeMap_b64_char b64_char_not_special Let_def
        prod.case option.case simp_thms if_False if_True)

lemma b64_quantum1:
  "b64_quanta [b64_char (v div 262144), b64_char (v div 4096), CHR ''='', CHR ''=''] =
   Inr [char_of (((v div 262144 mod 64) * 64 + v div 4096 mod 64) div 16)]"
  by (simp only: b64_quanta.simps decodeMap_b64_char b64_char_not_special Let_def
        prod.case option.case simp_thms if_False if_True)

lemma b64_quanta_Encode: "b64_quanta (b64_Encode bs) = Inr bs"
proof (induction bs rule: b64_Encode.induct)
  case (1 a b c src)
  show ?case
    using quantum3 [of "of_char a" "of_char b" "of_char c"]
    by (simp only: b64_Encode.simps Let_def append_Cons append_Nil b64_quantum3 1 sum.case
          of_char_lt char_of_char list.inject simp_thms)
next
  case (2 a b)
  show ?case
    using quantum2 [of "of_char a" "of_char b"]
    by (simp only: b64_Encode.simps Let_def b64_quantum2 of_char_lt char_of_char
          list.inject simp_thms)
next
  case (3 a)
  show ?case
    using quantum1 [of "of_char a"]
    by (simp only: b64_Encode.simps Let_def b64_quantum1 of_char_lt char_of_char
          list.inject simp_thms)
next
  case 4
  show ?case by simp
qed

lemma b64_Encode_chars: "c \<in> set (b64_Encode bs) \<Longrightarrow> c \<noteq> CHR 0x0A \<and> c \<noteq> CHR 0x0D"
  by (induction bs rule: b64_Encode.induct) (auto simp: Let_def b64_char_not_special)

lemma b64_roundtrip: "b64_Decode (b64_Encode bs) = Inr bs"
proof -
  have "filter (\<lambda>c. c \<noteq> CHR 0x0A \<and> c \<noteq> CHR 0x0D) (b64_Encode bs) = b64_Encode bs"
    using b64_Encode_chars by (simp add: filter_id_conv)
  then show ?thesis by (simp add: b64_Decode_def b64_quanta_Encode)
qed

section \<open>gob: decoding undoes encoding\<close>

lemma be_value_snoc: "be_value (bs @ [b]) = be_value bs * 256 + of_char b"
  by (simp add: be_value_def)

lemma be_value_be_bytes: "be_value (be_bytes n) = n"
proof (induction n rule: be_bytes.induct)
  case (1 n)
  show ?case
  proof (cases "n = 0")
    case True
    then show ?thesis by (simp add: be_bytes.simps be_value_def)
  next
    case False
    then have "be_bytes n = be_bytes (n div 256) @ [char_of (n mod 256)]"
      by (subst be_bytes.simps) simp
    with False 1 show ?thesis by (simp add: be_value_snoc)
  qed
qed

lemma length_be_bytes: "n < 256 ^ k \<Longrightarrow> length (be_bytes n) \<le> k"
proof (induction k arbitrary: n)
  case 0
  then show ?case by (simp add: be_bytes.simps)
next
  case (Suc k)
  show ?case
  proof (cases "n = 0")
    case True
    then show ?thesis by (simp add: be_bytes.simps)
  next
    case False
    then have eq: "be_bytes n = be_bytes (n div 256) @ [char_of (n mod 256)]"
      by (subst be_bytes.simps) simp
    from Suc.prems have "n div 256 < 256 ^ k"
      by (simp add: less_mult_imp_div_less mult.commute)
    with Suc.IH [of "n div 256"] eq show ?thesis by simp
  qed
qed

lemma be_bytes_nonempty: "0 < n \<Longrightarrow> be_bytes n \<noteq> []"
  by (subst be_bytes.simps) simp

lemma decodeUint_encodeUint: "decodeUint (encodeUint x @ rest) = Some (x, rest)"
proof (cases "x \<le> 127")
  case True
  then have "unat x \<le> 127" by (simp add: word_le_nat_alt)
  then have "(of_char (char_of (unat x)) :: nat) = unat x" by simp
  with True \<open>unat x \<le> 127\<close> show ?thesis
    by (simp add: encodeUint_def decodeUint_def)
next
  case False
  define bs where "bs = be_bytes (unat x)"
  have "0 < unat x" using False by (simp add: word_le_nat_alt)
  then have ne: "bs \<noteq> []" unfolding bs_def by (rule be_bytes_nonempty)
  have "unat x < 256 ^ 8" using unsigned_less [of x] by simp
  then have le: "length bs \<le> 8" unfolding bs_def by (rule length_be_bytes)
  from ne have ge: "1 \<le> length bs" by (cases bs) simp_all
  have b0: "(256 - length bs) mod 256 = 256 - length bs"
    using ge by simp
  have val: "(of_nat (be_value bs) :: 64 word) = x"
    unfolding bs_def by (simp add: be_value_be_bytes)
  have big: "\<not> 256 - length bs \<le> 127" using le by simp
  have len: "256 - (256 - length bs) = length bs" using le by simp
  show ?thesis
    using False le val big
    by (simp add: encodeUint_def decodeUint_def Let_def bs_def [symmetric] b0 len)
qed

lemma encodeUint_nonempty: "encodeUint x \<noteq> []"
  by (simp add: encodeUint_def Let_def)

lemma length_encodeUint: "length (encodeUint x) \<le> 9"
proof -
  have "unat x < 256 ^ 8" using unsigned_less [of x] by simp
  then have "length (be_bytes (unat x)) \<le> 8" by (rule length_be_bytes)
  then show ?thesis by (simp add: encodeUint_def Let_def)
qed

lemma zigzag_neg:
  fixes i :: "64 word"
  assumes "i <s 0"
  shows "(push_bit 1 (NOT i) OR 1) AND 1 \<noteq> 0" "NOT (drop_bit 1 (push_bit 1 (NOT i) OR 1)) = i"
proof -
  have msb: "bit i 63" using assms bit_last_iff [of i] by (simp add: word_sless_alt)
  show "(push_bit 1 (NOT i) OR 1) AND 1 \<noteq> 0"
    by (simp add: and_one_eq mod_2_eq_odd even_or_iff)
  show "NOT (drop_bit 1 (push_bit 1 (NOT i) OR 1)) = i"
  proof (rule bit_word_eqI)
    fix n assume "n < LENGTH(64)"
    then show "bit (NOT (drop_bit 1 (push_bit 1 (NOT i) OR 1))) n = bit i n"
      using msb
      unfolding bit_not_iff bit_drop_bit_eq bit_or_iff bit_push_bit_iff bit_1_iff comp_def
      by (cases "n = 63") (auto simp: possible_bit_word)
  qed
qed

lemma zigzag_pos:
  fixes i :: "64 word"
  assumes "\<not> i <s 0"
  shows "push_bit 1 i AND 1 = 0" "drop_bit 1 (push_bit 1 i) = i"
proof -
  have msb: "\<not> bit i 63" using assms bit_last_iff [of i] by (simp add: word_sless_alt)
  show "push_bit 1 i AND 1 = 0"
    by (simp add: and_one_eq mod_2_eq_odd)
  show "drop_bit 1 (push_bit 1 i) = i"
  proof (rule bit_word_eqI)
    fix n assume "n < LENGTH(64)"
    then show "bit (drop_bit 1 (push_bit 1 i)) n = bit i n"
      using msb
      unfolding bit_drop_bit_eq bit_push_bit_iff comp_def
      by (cases "n = 63") (auto simp: possible_bit_word)
  qed
qed

lemma decodeInt_encodeInt: "decodeInt (encodeInt i @ rest) = Some (i, rest)"
  using zigzag_neg [of i] zigzag_pos [of i]
  by (simp add: encodeInt_def decodeInt_def decodeUint_encodeUint)


lemma unat_length: "n < 2 ^ 64 \<Longrightarrow> unat (of_nat n :: 64 word) = n"
  by (simp add: unat_of_nat)

lemma decodeString_encodeString:
  "length s < 2 ^ 64 \<Longrightarrow> decodeString (encodeString s @ rest) = Some (s, rest)"
  by (simp add: decodeString_def encodeString_def decodeUint_encodeUint unat_length)

lemma decodeElems_encode:
  "\<forall>s \<in> set xs. length s < 2 ^ 64 \<Longrightarrow>
   decodeElems (length xs) (concat (map encodeString xs) @ rest) = Some (xs, rest)"
  by (induction xs) (simp_all add: decodeString_encodeString)

lemma decodeStrings_encodeStrings:
  "length xs < 2 ^ 64 \<Longrightarrow> \<forall>s \<in> set xs. length s < 2 ^ 64 \<Longrightarrow>
   decodeStrings (encodeStrings xs @ rest) = Some (xs, rest)"
  by (simp add: decodeStrings_def encodeStrings_def decodeUint_encodeUint unat_length
        decodeElems_encode)

lemma decodeStruct_field:
  assumes "- 1 \<le> f" "f < k" "k \<le> 5"
  shows "decodeStruct f acc (encodeUint (of_int (k - f)) @ s) =
         (case decodeField k acc s of
            None \<Rightarrow> None
          | Some (acc', s') \<Rightarrow> decodeStruct k acc' s')"
proof -
  have u: "uint (of_int (k - f) :: 64 word) = k - f"
    using assms by (simp add: uint_word_of_int take_bit_int_eq_self del: of_int_diff)
  then have nz: "(of_int (k - f) :: 64 word) \<noteq> 0"
    using assms by (metis diff_gt_0_iff_gt less_irrefl uint_0_eq)
  show ?thesis
    using assms nz u
    by (subst decodeStruct.simps)
       (simp add: decodeUint_encodeUint del: of_int_diff split: option.splits)
qed

lemma decodeStruct_end: "decodeStruct f acc (encodeUint 0 @ s) = Some (acc, s)"
  by (subst decodeStruct.simps) (simp add: decodeUint_encodeUint)

lemma sendField_step:
  assumes inv: "\<And>sfx. decodeStruct (- 1) z (snd st @ sfx) = decodeStruct (fst st) acc sfx"
    and lo: "- 1 \<le> fst st" and hi: "fst st < k" and k: "k \<le> 5"
    and dec: "nz \<Longrightarrow> (\<And>sfx. decodeField k acc (enc @ sfx) = Some (acc', sfx))"
    and same: "\<not> nz \<Longrightarrow> acc' = acc"
  shows "decodeStruct (- 1) z (snd (sendField k nz enc st) @ sfx) =
         decodeStruct (fst (sendField k nz enc st)) acc' sfx"
    and "- 1 \<le> fst (sendField k nz enc st)" and "fst (sendField k nz enc st) < k + 1"
proof -
  show "decodeStruct (- 1) z (snd (sendField k nz enc st) @ sfx) =
        decodeStruct (fst (sendField k nz enc st)) acc' sfx"
  proof (cases nz)
    case True
    then show ?thesis
      using inv [of "encodeUint (of_int (k - fst st)) @ enc @ sfx"]
        decodeStruct_field [OF lo hi k, of acc "enc @ sfx"] dec [OF True, of sfx]
      by (simp add: sendField_def)
  next
    case False
    then show ?thesis using inv [of sfx] same by (simp add: sendField_def)
  qed
  show "- 1 \<le> fst (sendField k nz enc st)" using lo hi by (simp add: sendField_def)
  show "fst (sendField k nz enc st) < k + 1" using hi by (simp add: sendField_def)
qed

lemma decodeStruct_encodeStruct:
  assumes "fits r"
  shows "decodeStruct (- 1) \<lparr>Uid = 0, Gid = 0, Path = [], Argv = [], Env = [], Dir = []\<rparr>
           (encodeStruct r @ rest) = Some (r, rest)"
proof -
  define z where "z = \<lparr>Uid = 0, Gid = 0, Path = [], Argv = [], Env = [], Dir = []\<rparr>"
  define st0 :: "int \<times> string" where "st0 = (- 1, [])"
  define st1 where "st1 = sendField 0 (Uid r \<noteq> 0) (encodeInt (Uid r)) st0"
  define st2 where "st2 = sendField 1 (Gid r \<noteq> 0) (encodeInt (Gid r)) st1"
  define st3 where
    "st3 = sendField 2 (execReq.Path r \<noteq> []) (encodeString (execReq.Path r)) st2"
  define st4 where "st4 = sendField 3 (Argv r \<noteq> []) (encodeStrings (Argv r)) st3"
  define st5 where "st5 = sendField 4 (Env r \<noteq> []) (encodeStrings (Env r)) st4"
  define st6 where "st6 = sendField 5 (Dir r \<noteq> []) (encodeString (Dir r)) st5"
  define a1 where "a1 = z\<lparr>Uid := Uid r\<rparr>"
  define a2 where "a2 = a1\<lparr>Gid := Gid r\<rparr>"
  define a3 where "a3 = a2\<lparr>execReq.Path := execReq.Path r\<rparr>"
  define a4 where "a4 = a3\<lparr>Argv := Argv r\<rparr>"
  define a5 where "a5 = a4\<lparr>Env := Env r\<rparr>"
  define a6 where "a6 = a5\<lparr>Dir := Dir r\<rparr>"
  from assms have
    f: "length (execReq.Path r) < 2 ^ 64" "length (Dir r) < 2 ^ 64"
       "length (Argv r) < 2 ^ 64" "\<forall>s \<in> set (Argv r). length s < 2 ^ 64"
       "length (Env r) < 2 ^ 64" "\<forall>s \<in> set (Env r). length s < 2 ^ 64"
    by (simp_all add: fits_def)
  have i0: "\<And>sfx. decodeStruct (- 1) z (snd st0 @ sfx) = decodeStruct (fst st0) z sfx"
    and b0: "- 1 \<le> fst st0" "fst st0 < 0"
    by (simp_all add: st0_def)
  have s1: "\<And>sfx. decodeStruct (- 1) z (snd st1 @ sfx) = decodeStruct (fst st1) a1 sfx"
    and b1: "- 1 \<le> fst st1" "fst st1 < 1"
    unfolding st1_def
    using sendField_step [OF i0 b0, of "Uid r \<noteq> 0" "encodeInt (Uid r)" a1]
    by (simp_all add: decodeField_def decodeInt_encodeInt a1_def z_def)
  have s2: "\<And>sfx. decodeStruct (- 1) z (snd st2 @ sfx) = decodeStruct (fst st2) a2 sfx"
    and b2: "- 1 \<le> fst st2" "fst st2 < 2"
    unfolding st2_def
    using sendField_step [OF s1 b1, of "Gid r \<noteq> 0" "encodeInt (Gid r)" a2]
    by (simp_all add: decodeField_def decodeInt_encodeInt a2_def a1_def z_def)
  have s3: "\<And>sfx. decodeStruct (- 1) z (snd st3 @ sfx) = decodeStruct (fst st3) a3 sfx"
    and b3: "- 1 \<le> fst st3" "fst st3 < 3"
    unfolding st3_def
    using sendField_step [OF s2 b2, of "execReq.Path r \<noteq> []"
                            "encodeString (execReq.Path r)" a3] f
    by (simp_all add: decodeField_def decodeString_encodeString a3_def a2_def a1_def z_def)
  have s4: "\<And>sfx. decodeStruct (- 1) z (snd st4 @ sfx) = decodeStruct (fst st4) a4 sfx"
    and b4: "- 1 \<le> fst st4" "fst st4 < 4"
    unfolding st4_def
    using sendField_step [OF s3 b3, of "Argv r \<noteq> []" "encodeStrings (Argv r)" a4] f
    by (simp_all add: decodeField_def decodeStrings_encodeStrings a4_def a3_def a2_def a1_def
          z_def)
  have s5: "\<And>sfx. decodeStruct (- 1) z (snd st5 @ sfx) = decodeStruct (fst st5) a5 sfx"
    and b5: "- 1 \<le> fst st5" "fst st5 < 5"
    unfolding st5_def
    using sendField_step [OF s4 b4, of "Env r \<noteq> []" "encodeStrings (Env r)" a5] f
    by (simp_all add: decodeField_def decodeStrings_encodeStrings a5_def a4_def a3_def a2_def
          a1_def z_def)
  have s6: "\<And>sfx. decodeStruct (- 1) z (snd st6 @ sfx) = decodeStruct (fst st6) a6 sfx"
    unfolding st6_def
    using sendField_step(1) [OF s5 b5, of "Dir r \<noteq> []" "encodeString (Dir r)" a6] f
    by (simp_all add: decodeField_def decodeString_encodeString a6_def a5_def a4_def a3_def
          a2_def a1_def z_def)
  have a6: "a6 = r"
    by (simp add: a6_def a5_def a4_def a3_def a2_def a1_def z_def)
  have enc: "encodeStruct r = snd st6 @ encodeUint 0"
    by (simp add: encodeStruct_def st6_def st5_def st4_def st3_def st2_def st1_def st0_def)
  show ?thesis
    unfolding z_def [symmetric] enc
    using s6 [of "encodeUint 0 @ rest"] by (simp add: decodeStruct_end a6)
qed


lemma length_le_sum_list: "length xs \<le> sum_list (map (\<lambda>s. length s + 1) xs)"
  by (induction xs) simp_all

lemma elem_le_sum_list: "s \<in> set xs \<Longrightarrow> length s < sum_list (map (\<lambda>s. length s + 1) xs)"
  by (induction xs) auto

lemma req_size_fits:
  assumes "req_size r < 2 ^ 60"
  shows "fits r"
proof -
  have big: "(2::nat) ^ 60 < 2 ^ 64" by simp
  have a: "length (Argv r) < 2 ^ 60" "length (Env r) < 2 ^ 60"
    using assms length_le_sum_list [of "Argv r"] length_le_sum_list [of "Env r"]
    by (simp_all add: req_size_def)
  have b: "\<forall>s \<in> set (Argv r). length s < 2 ^ 60" "\<forall>s \<in> set (Env r). length s < 2 ^ 60"
    using assms elem_le_sum_list [of _ "Argv r"] elem_le_sum_list [of _ "Env r"]
    by (fastforce simp: req_size_def)+
  have c: "length (execReq.Path r) < 2 ^ 60" "length (Dir r) < 2 ^ 60"
    using assms by (simp_all add: req_size_def)
  show ?thesis
    unfolding fits_def using a b c big by (meson less_trans)
qed

lemma length_encodeInt: "length (encodeInt i) \<le> 9"
  by (simp add: encodeInt_def length_encodeUint)

lemma length_encodeString: "length (encodeString s) \<le> 9 + length s"
  using length_encodeUint [of "of_nat (length s)"] by (simp add: encodeString_def)

lemma length_concat_encodeString:
  "length (concat (map encodeString xs)) \<le> 9 * sum_list (map (\<lambda>s. length s + 1) xs)"
proof (induction xs)
  case Nil
  then show ?case by simp
next
  case (Cons x xs)
  with length_encodeString [of x] show ?case by simp
qed

lemma length_encodeStrings:
  "length (encodeStrings xs) \<le> 9 + 9 * sum_list (map (\<lambda>s. length s + 1) xs)"
  using length_encodeUint [of "of_nat (length xs)"] length_concat_encodeString [of xs]
  by (simp add: encodeStrings_def)

lemma length_sendField:
  "length (snd (sendField k nz enc st)) \<le> length (snd st) + 9 + length enc"
  using length_encodeUint [of "of_int (k - fst st)"] by (simp add: sendField_def)

lemma length_encodeStruct: "length (encodeStruct r) \<le> 9 * req_size r + 120"
proof -
  define st0 :: "int \<times> string" where "st0 = (- 1, [])"
  define st1 where "st1 = sendField 0 (Uid r \<noteq> 0) (encodeInt (Uid r)) st0"
  define st2 where "st2 = sendField 1 (Gid r \<noteq> 0) (encodeInt (Gid r)) st1"
  define st3 where
    "st3 = sendField 2 (execReq.Path r \<noteq> []) (encodeString (execReq.Path r)) st2"
  define st4 where "st4 = sendField 3 (Argv r \<noteq> []) (encodeStrings (Argv r)) st3"
  define st5 where "st5 = sendField 4 (Env r \<noteq> []) (encodeStrings (Env r)) st4"
  define st6 where "st6 = sendField 5 (Dir r \<noteq> []) (encodeString (Dir r)) st5"
  have l0: "length (snd st0) = 0" by (simp add: st0_def)
  have l1: "length (snd st1) \<le> length (snd st0) + 9 + 9"
    unfolding st1_def
    using length_sendField [of 0 "Uid r \<noteq> 0" "encodeInt (Uid r)" st0]
      length_encodeInt [of "Uid r"] by simp
  have l2: "length (snd st2) \<le> length (snd st1) + 9 + 9"
    unfolding st2_def
    using length_sendField [of 1 "Gid r \<noteq> 0" "encodeInt (Gid r)" st1]
      length_encodeInt [of "Gid r"] by simp
  have l3: "length (snd st3) \<le> length (snd st2) + 9 + (9 + length (execReq.Path r))"
    unfolding st3_def
    using length_sendField [of 2 "execReq.Path r \<noteq> []" "encodeString (execReq.Path r)" st2]
      length_encodeString [of "execReq.Path r"] by simp
  have l4: "length (snd st4) \<le>
            length (snd st3) + 9 + (9 + 9 * sum_list (map (\<lambda>s. length s + 1) (Argv r)))"
    unfolding st4_def
    using length_sendField [of 3 "Argv r \<noteq> []" "encodeStrings (Argv r)" st3]
      length_encodeStrings [of "Argv r"] by simp
  have l5: "length (snd st5) \<le>
            length (snd st4) + 9 + (9 + 9 * sum_list (map (\<lambda>s. length s + 1) (Env r)))"
    unfolding st5_def
    using length_sendField [of 4 "Env r \<noteq> []" "encodeStrings (Env r)" st4]
      length_encodeStrings [of "Env r"] by simp
  have l6: "length (snd st6) \<le> length (snd st5) + 9 + (9 + length (Dir r))"
    unfolding st6_def
    using length_sendField [of 5 "Dir r \<noteq> []" "encodeString (Dir r)" st5]
      length_encodeString [of "Dir r"] by simp
  have enc: "encodeStruct r = snd st6 @ encodeUint 0"
    by (simp add: encodeStruct_def st6_def st5_def st4_def st3_def st2_def st1_def st0_def)
  have "length (encodeUint 0) \<le> 9" by (rule length_encodeUint)
  with l0 l1 l2 l3 l4 l5 l6 show ?thesis
    unfolding enc req_size_def by simp
qed

lemma readMessage_message:
  "length p < 2 ^ 64 \<Longrightarrow> readMessage (message p @ rest) = Some (p, rest)"
  by (simp add: readMessage_def message_def decodeUint_encodeUint unat_length)

lemma message_nonempty: "message p \<noteq> []"
  by (simp add: message_def encodeUint_nonempty)

lemma decodeMessages_descriptor:
  "length (encodeInt tid @ body) < 2 ^ 64 \<Longrightarrow> tid <s 0 \<Longrightarrow>
   decodeMessages (Suc k) (message (encodeInt tid @ body) @ rest) = decodeMessages k rest"
  using readMessage_message [of "encodeInt tid @ body" rest]
  by (simp add: decodeInt_encodeInt)

lemma decodeMessages_value:
  "length (encodeInt 65 @ encodeStruct r) < 2 ^ 64 \<Longrightarrow> fits r \<Longrightarrow>
   decodeMessages (Suc k) (message (encodeInt 65 @ encodeStruct r)) = Inr r"
  using readMessage_message [of "encodeInt 65 @ encodeStruct r" "[]"]
    decodeStruct_encodeStruct [of r "[]"]
  by (simp add: decodeInt_encodeInt word_sless_alt)

lemma length_structTypeDef: "length structTypeDef \<le> 1000"
    unfolding structTypeDef_def encodeCommonType_def
    using length_encodeUint [of 0] length_encodeUint [of 1] length_encodeUint [of 3]
      length_encodeUint [of 6] length_encodeInt [of 2] length_encodeInt [of 6]
      length_encodeInt [of 65] length_encodeInt [of 66]
      length_encodeString [of "''execReq''"] length_encodeString [of "''Uid''"]
      length_encodeString [of "''Gid''"] length_encodeString [of "''Path''"]
      length_encodeString [of "''Argv''"] length_encodeString [of "''Env''"]
      length_encodeString [of "''Dir''"]
  by simp

lemma length_sliceTypeDef: "length sliceTypeDef \<le> 1000"
    unfolding sliceTypeDef_def encodeCommonType_def
    using length_encodeUint [of 0] length_encodeUint [of 1] length_encodeUint [of 2]
      length_encodeInt [of 6] length_encodeInt [of 66]
      length_encodeString [of "''[]string''"]
  by simp

lemma gob_roundtrip:
  assumes "req_size r < 2 ^ 60"
  shows "\<exists>bytes. gob_Encode r = Inr bytes \<and> gob_Decode bytes = Inr r"
proof -
  define m1 where "m1 = message (encodeInt (- 65) @ structTypeDef)"
  define m2 where "m2 = message (encodeInt (- 66) @ sliceTypeDef)"
  define m3 where "m3 = message (encodeInt 65 @ encodeStruct r)"
  have fits: "fits r" using assms by (rule req_size_fits)
  have l3: "length (encodeInt 65 @ encodeStruct r) < 2 ^ 64"
    using length_encodeStruct [of r] length_encodeInt [of 65] assms by simp
  have l1: "length (encodeInt (- 65) @ structTypeDef) < 2 ^ 64"
    using length_structTypeDef length_encodeInt [of "- 65"] by simp
  have l2: "length (encodeInt (- 66) @ sliceTypeDef) < 2 ^ 64"
    using length_sliceTypeDef length_encodeInt [of "- 66"] by simp
  have ne: "1 \<le> length m1" "1 \<le> length m2" "1 \<le> length m3"
    using message_nonempty [of "encodeInt (- 65) @ structTypeDef"]
      message_nonempty [of "encodeInt (- 66) @ sliceTypeDef"]
      message_nonempty [of "encodeInt 65 @ encodeStruct r"]
    unfolding m1_def m2_def m3_def
    by (simp_all add: Suc_le_eq)
  define k where "k = length (m1 @ m2 @ m3) - 3"
  have k: "length (m1 @ m2 @ m3) = Suc (Suc (Suc k))"
    using ne by (simp add: k_def)
  have n1: "(- 65 :: 64 word) <s 0" and n2: "(- 66 :: 64 word) <s 0"
    by (simp_all add: word_sless_alt)
  have "decodeMessages (Suc (Suc (Suc k))) (m1 @ m2 @ m3) = Inr r"
    unfolding m1_def m2_def
    using decodeMessages_descriptor [OF l1 n1, of "Suc (Suc k)"]
      decodeMessages_descriptor [OF l2 n2, of "Suc k"]
      decodeMessages_value [OF l3 fits, of k]
    by (simp add: m3_def)
  then show ?thesis
    using k by (simp add: gob_Encode_def gob_Decode_def m1_def m2_def m3_def)
qed

section \<open>The privilege drop as a run of calls\<close>

lemma run_calls_prefix: "run_calls E tr cs = (dn, r) \<Longrightarrow> \<exists>rest. cs = dn @ rest"
  by (induction cs arbitrary: tr dn r) (auto split: option.splits prod.splits if_splits)

lemma run_calls_complete: "run_calls E tr cs = (dn, None) \<Longrightarrow> dn = cs"
  by (induction cs arbitrary: tr dn) (auto split: option.splits prod.splits if_splits)

lemma run_calls_Nil: "run_calls E tr cs = ([], r) \<Longrightarrow> r = None"
  by (cases cs) (auto split: option.splits prod.splits if_splits)

lemma run_calls_failures:
  "run_calls E tr cs = (dn, r) \<Longrightarrow> i < length dn \<Longrightarrow> \<not> is_Println (dn ! i) \<Longrightarrow>
   (os_error E (tr @ take i dn) (dn ! i) \<noteq> None) = (Suc i = length dn \<and> r \<noteq> None)"
proof (induction cs arbitrary: tr i dn r)
  case Nil
  then show ?case by simp
next
  case (Cons ev evs)
  show ?case
  proof (cases "if is_Println ev then None else os_error E tr ev")
    case (Some err)
    with Cons.prems show ?thesis by (auto split: if_splits)
  next
    case None
    obtain dn' r' where run: "run_calls E (tr @ [ev]) evs = (dn', r')"
      by (cases "run_calls E (tr @ [ev]) evs")
    with None Cons.prems have dn: "dn = ev # dn'" and r: "r = r'"
      by auto
    show ?thesis
    proof (cases i)
      case 0
      with None Cons.prems dn r run run_calls_Nil [of E "tr @ [ev]" evs r'] show ?thesis
        by (auto split: if_splits)
    next
      case (Suc j)
      with Cons.prems dn r Cons.IH [OF run, of j] show ?thesis by simp
    qed
  qed
qed

lemma run_calls_nonempty: "cs \<noteq> [] \<Longrightarrow> run_calls E tr cs = (dn, r) \<Longrightarrow> dn \<noteq> []"
  by (cases cs) (auto split: option.splits prod.splits if_splits)

lemma run_calls_failed:
  "run_calls E tr cs = (dn, Some err) \<Longrightarrow>
   dn \<noteq> [] \<and> \<not> is_Println (last dn) \<and> os_error E (tr @ butlast dn) (last dn) = Some err"
proof (induction cs arbitrary: tr dn)
  case Nil
  then show ?case by simp
next
  case (Cons ev evs)
  show ?case
  proof (cases "if is_Println ev then None else os_error E tr ev")
    case (Some e)
    with Cons.prems show ?thesis by (auto split: if_splits)
  next
    case None
    obtain dn' r' where run: "run_calls E (tr @ [ev]) evs = (dn', r')"
      by (cases "run_calls E (tr @ [ev]) evs")
    with None Cons.prems have dn: "dn = ev # dn'" and r: "r' = Some err"
      by auto
    from Cons.IH [OF run [unfolded r]] dn show ?thesis by simp
  qed
qed

lemma run_calls_all_ok:
  "(\<forall>i < length cs. \<not> is_Println (cs ! i) \<longrightarrow> os_error E (tr @ take i cs) (cs ! i) = None) \<Longrightarrow>
   run_calls E tr cs = (cs, None)"
proof (induction cs arbitrary: tr)
  case Nil
  then show ?case by simp
next
  case (Cons ev evs)
  from Cons.prems have hd: "\<not> is_Println ev \<longrightarrow> os_error E tr ev = None"
    by fastforce
  have "\<forall>i < length evs. \<not> is_Println (evs ! i) \<longrightarrow>
          os_error E ((tr @ [ev]) @ take i evs) (evs ! i) = None"
  proof (intro allI impI)
    fix i assume "i < length evs" and "\<not> is_Println (evs ! i)"
    with Cons.prems [rule_format, of "Suc i"] show
      "os_error E ((tr @ [ev]) @ take i evs) (evs ! i) = None" by simp
  qed
  from Cons.IH [OF this] hd show ?case by auto
qed

lemma spec_drop_sequence_last:
  "spec_drop_sequence req \<noteq> [] \<and>
   last (spec_drop_sequence req) = Exec (execReq.Path req) (Argv req) (Env req)"
  by (simp add: spec_drop_sequence_def)

lemma maybeExec_run:
  assumes "os_Getenv (os_Environ E) ''_EXEC_REQ'' = data" and "data \<noteq> []"
    and "decodeReq data = Inr req"
  shows "\<exists>out dn r. maybeExec E w = (out, w\<lparr>trace := trace w @ dn\<rparr>) \<and>
         run_calls E (trace w) (spec_drop_sequence req) = (dn, r) \<and>
         out \<noteq> Returned \<and> (out = Replaced) = (r = None)"
proof -
  have me: "maybeExec E w =
     (case (if 0 <s Gid req then os_call E (Setgid (Gid req)) w else (None, w)) of
                (Some err, w1) \<Rightarrow>
                  (Fatalf ''failed to setgid(%d): %s'' [AInt (Gid req), AErr err], w1)
              | (None, w1) \<Rightarrow>
                  (case (if 0 <s Uid req then os_call E (Setuid (Uid req)) w1 else (None, w1)) of
                     (Some err, w2) \<Rightarrow>
                       (Fatalf ''failed to setuid(%d): %s'' [AInt (Uid req), AErr err], w2)
                   | (None, w2) \<Rightarrow>
                       (case (if Dir req \<noteq> [] then os_call E (Chdir (Dir req)) w2
                              else (None, w2)) of
                          (Some err, w3) \<Rightarrow>
                            (Fatalf ''failed to chdir to %q: %s'' [AStr (Dir req), AErr err], w3)
                        | (None, w3) \<Rightarrow>
                            (let (_, w4) =
                                   os_call E (Println ''execing'' (execReq.Path req) (Argv req)) w3
                             in case os_call E
                                       (Exec (execReq.Path req) (Argv req) (Env req)) w4 of
                                  (Some err, w5) \<Rightarrow>
                                    (Fatalf ''failed to exec %q: %s''
                                       [AStr (execReq.Path req), AErr err], w5)
                                | (None, w5) \<Rightarrow> (Replaced, w5)))))"
    using assms by (simp add: maybeExec_def)
  show ?thesis
    unfolding me
    by (cases "0 <s Gid req"; cases "0 <s Uid req"; cases "Dir req = []";
        simp add: spec_drop_sequence_def os_call_def split: option.splits)
qed

section \<open>The exec request from parent to child\<close>

lemma decodeReq_encodeReq:
  assumes "req_size r < 2 ^ 60"
  shows "decodeReq (encodeReq r) = Inr r"
  using gob_roundtrip [OF assms] by (auto simp: decodeReq_def encodeReq_def b64_roundtrip)

lemma b64_Encode_nonempty: "bs \<noteq> [] \<Longrightarrow> b64_Encode bs \<noteq> []"
  by (induction bs rule: b64_Encode.induct) (simp_all add: Let_def)

lemma encodeReq_nonempty: "encodeReq r \<noteq> []"
  by (simp add: encodeReq_def gob_Encode_def b64_Encode_nonempty message_nonempty)

lemma os_Getenv_EXEC_REQ: "os_Getenv [''_EXEC_REQ='' @ s] ''_EXEC_REQ'' = s"
  by simp

lemma start_cmd:
  "\<exists>c err. start E r out w =
             ((Some c, err), w\<lparr>trace := trace w @
                [CmdStart (os_Args0 E) [''_EXEC_REQ='' @ encodeReq r] out]\<rparr>) \<and>
           cmd_Env c = [''_EXEC_REQ='' @ encodeReq r] \<and>
           (err = None) = (\<exists>pid. os_StartProcess E (trace w) = Inr pid) \<and>
           Process c = (case os_StartProcess E (trace w) of Inl e \<Rightarrow> None | Inr pid \<Rightarrow> Some pid)"
  by (auto simp: start_def encodeReq_def gob_Encode_def Let_def split: sum.splits)

text \<open>
  Claim C3. For every request (of a size a Go process can hold), the string that
  \<^verbatim>\<open>start\<close> puts into the child's environment under \<^verbatim>\<open>_EXEC_REQ\<close> is not empty, and
  decoding it as \<^verbatim>\<open>maybeExec\<close> does gives back the same request: uid, gid, path, argv,
  env and dir.
\<close>

theorem C3_exec_request_roundtrip:
  assumes "req_size r < 2 ^ 60"
  shows "\<exists>c err w'. start E r out w = ((Some c, err), w') \<and>
           os_Getenv (cmd_Env c) ''_EXEC_REQ'' \<noteq> [] \<and>
           decodeReq (os_Getenv (cmd_Env c) ''_EXEC_REQ'') = Inr r"
proof -
  obtain c err w' where s: "start E r out w = ((Some c, err), w')"
    and env: "cmd_Env c = [''_EXEC_REQ='' @ encodeReq r]"
    using start_cmd [of E r out w] by blast
  have "os_Getenv (cmd_Env c) ''_EXEC_REQ'' = encodeReq r"
    unfolding env by (rule os_Getenv_EXEC_REQ)
  with s decodeReq_encodeReq [OF assms] encodeReq_nonempty [of r] show ?thesis by simp
qed

lemma req_size_req0: "req_size req0 < 2 ^ 60"
  by (simp add: req_size_def req0_def)

theorem C3_exec_request_roundtrip_witness:
  "req_size req0 < 2 ^ 60 \<and>
   (\<exists>c err w'. start env_ok req0 (Some (Writer 1)) uml_world0 = ((Some c, err), w') \<and>
      os_Getenv (cmd_Env c) ''_EXEC_REQ'' \<noteq> [] \<and>
      decodeReq (os_Getenv (cmd_Env c) ''_EXEC_REQ'') = Inr req0)"
  using C3_exec_request_roundtrip [OF req_size_req0, of env_ok "Some (Writer 1)" uml_world0]
    req_size_req0 by simp

text \<open>
  Claim C4. For a decoded request, \<^verbatim>\<open>maybeExec\<close> makes exactly the calls of the claimed
  sequence (setgid only for a positive gid, then setuid only for a positive uid, then
  chdir only for a given directory, then the announcement and the exec) up to and
  including the first call that fails, and at least one call. The process never returns
  to \<^verbatim>\<open>main\<close>: it ends replaced by the exec, which is then the last call of the whole
  sequence, or by \<^verbatim>\<open>log.Fatalf\<close>, and then the last call made is a call that failed. A
  call fails exactly when it is the last call made and the process ends by
  \<^verbatim>\<open>log.Fatalf\<close>, so no failure is passed over and no call is made again. When no call of
  the sequence fails the process is replaced. With uid and gid 0 no setgid or setuid is
  made, and without a directory the calls are the announcement and the exec alone.
\<close>

theorem C4_privilege_drop_order:
  assumes "os_Getenv (os_Environ E) ''_EXEC_REQ'' = data" and "data \<noteq> []"
    and "decodeReq data = Inr req"
  shows "\<exists>out w' calls rest.
     maybeExec E w = (out, w') \<and> trace w' = trace w @ calls \<and> heap w' = heap w \<and>
     spec_drop_sequence req = calls @ rest \<and>
     (out = Replaced \<or> (\<exists>f args. out = Fatalf f args)) \<and>
     (out = Replaced \<longrightarrow> rest = []) \<and>
     (\<forall>i < length calls. \<not> is_Println (calls ! i) \<longrightarrow>
        (os_error E (trace w @ take i calls) (calls ! i) \<noteq> None) =
        (Suc i = length calls \<and> out \<noteq> Replaced)) \<and>
     (Gid req = 0 \<and> Uid req = 0 \<longrightarrow>
        (\<forall>g. Setgid g \<notin> set calls) \<and> (\<forall>u. Setuid u \<notin> set calls)) \<and>
     calls \<noteq> [] \<and>
     run_calls E (trace w) (spec_drop_sequence req) =
       (calls, if out = Replaced then None
               else os_error E (trace w @ butlast calls) (last calls)) \<and>
     (out \<noteq> Replaced \<longrightarrow>
        \<not> is_Println (last calls) \<and>
        os_error E (trace w @ butlast calls) (last calls) \<noteq> None) \<and>
     (out = Replaced \<longrightarrow>
        calls = spec_drop_sequence req \<and>
        last calls = Exec (execReq.Path req) (Argv req) (Env req)) \<and>
     ((\<forall>i < length (spec_drop_sequence req). \<not> is_Println (spec_drop_sequence req ! i) \<longrightarrow>
         os_error E (trace w @ take i (spec_drop_sequence req)) (spec_drop_sequence req ! i) = None)
      \<longrightarrow> out = Replaced) \<and>
     (Gid req = 0 \<and> Uid req = 0 \<and> Dir req = [] \<longrightarrow>
        calls = [Println ''execing'' (execReq.Path req) (Argv req),
                 Exec (execReq.Path req) (Argv req) (Env req)])"
proof -
  let ?sds = "spec_drop_sequence req"
  obtain out dn r where me: "maybeExec E w = (out, w\<lparr>trace := trace w @ dn\<rparr>)"
    and run: "run_calls E (trace w) ?sds = (dn, r)"
    and out: "out \<noteq> Returned" "(out = Replaced) = (r = None)"
    using maybeExec_run [OF assms, of w] by blast
  obtain rest where rest: "?sds = dn @ rest"
    using run_calls_prefix [OF run] by blast
  have compl: "out = Replaced \<longrightarrow> dn = ?sds"
    using run_calls_complete [of E "trace w" ?sds dn] run out by auto
  with rest have full: "out = Replaced \<longrightarrow> rest = []"
    by auto
  have kind: "out = Replaced \<or> (\<exists>f args. out = Fatalf f args)"
    using out by (cases out) auto
  have fail: "\<forall>i < length dn. \<not> is_Println (dn ! i) \<longrightarrow>
        (os_error E (trace w @ take i dn) (dn ! i) \<noteq> None) =
        (Suc i = length dn \<and> out \<noteq> Replaced)"
    using run_calls_failures [OF run] out by simp
  have "set dn \<subseteq> set ?sds" unfolding rest by simp
  then have root: "Gid req = 0 \<and> Uid req = 0 \<longrightarrow>
        (\<forall>g. Setgid g \<notin> set dn) \<and> (\<forall>u. Setuid u \<notin> set dn)"
    by (auto simp: spec_drop_sequence_def split: if_splits)
  have ne: "dn \<noteq> []"
    using run_calls_nonempty [OF _ run] spec_drop_sequence_last [of req] by simp
  have fatal: "out \<noteq> Replaced \<longrightarrow>
        \<not> is_Println (last dn) \<and> r = os_error E (trace w @ butlast dn) (last dn) \<and>
        os_error E (trace w @ butlast dn) (last dn) \<noteq> None"
  proof
    assume "out \<noteq> Replaced"
    with out obtain err where "r = Some err" by auto
    with run_calls_failed [of E "trace w" ?sds dn err] run
    show "\<not> is_Println (last dn) \<and> r = os_error E (trace w @ butlast dn) (last dn) \<and>
        os_error E (trace w @ butlast dn) (last dn) \<noteq> None"
      by simp
  qed
  from fatal have fatal': "out \<noteq> Replaced \<longrightarrow>
        \<not> is_Println (last dn) \<and> os_error E (trace w @ butlast dn) (last dn) \<noteq> None"
    by blast
  have run': "run_calls E (trace w) ?sds =
       (dn, if out = Replaced then None else os_error E (trace w @ butlast dn) (last dn))"
    using run out fatal by auto
  have exec: "out = Replaced \<longrightarrow>
        dn = ?sds \<and> last dn = Exec (execReq.Path req) (Argv req) (Env req)"
    using compl spec_drop_sequence_last [of req] by auto
  have ok: "(\<forall>i < length ?sds. \<not> is_Println (?sds ! i) \<longrightarrow>
         os_error E (trace w @ take i ?sds) (?sds ! i) = None) \<longrightarrow> out = Replaced"
  proof
    assume "\<forall>i < length ?sds. \<not> is_Println (?sds ! i) \<longrightarrow>
         os_error E (trace w @ take i ?sds) (?sds ! i) = None"
    from run_calls_all_ok [OF this] run out show "out = Replaced" by simp
  qed
  have straight: "Gid req = 0 \<and> Uid req = 0 \<and> Dir req = [] \<longrightarrow>
        dn = [Println ''execing'' (execReq.Path req) (Argv req),
              Exec (execReq.Path req) (Argv req) (Env req)]"
    using run by (auto simp: spec_drop_sequence_def split: option.splits)
  have tr: "trace (w\<lparr>trace := trace w @ dn\<rparr>) = trace w @ dn"
    and hp: "heap (w\<lparr>trace := trace w @ dn\<rparr>) = heap w"
    by simp_all
  show ?thesis
    apply (rule exI [of _ out])
    apply (rule exI [of _ "w\<lparr>trace := trace w @ dn\<rparr>"])
    apply (rule exI [of _ dn])
    apply (rule exI [of _ rest])
    apply (intro conjI)
                 apply (rule me)
                apply (rule tr)
               apply (rule hp)
              apply (rule rest)
             apply (rule kind)
            apply (rule full)
           apply (rule fail)
          apply (rule root)
         apply (rule ne)
        apply (rule run')
       apply (rule fatal')
     apply (rule exec)
    apply (rule ok)
    apply (rule straight)
    done
qed

lemma decode_child: "decodeReq (encodeReq req0) = Inr req0"
  by (rule decodeReq_encodeReq [OF req_size_req0])

lemma decode_root_child: "decodeReq (encodeReq req_root) = Inr req_root"
  by (rule decodeReq_encodeReq) (simp add: req_size_def req_root_def)

theorem C4_privilege_drop_order_witness:
  "os_Getenv (os_Environ env_child) ''_EXEC_REQ'' = encodeReq req0 \<and>
   encodeReq req0 \<noteq> [] \<and> decodeReq (encodeReq req0) = Inr req0 \<and>
   (\<exists>w'. maybeExec env_child uml_world0 = (Replaced, w') \<and>
      trace w' = [Setgid 1000, Setuid 1000, Println ''execing'' ''linux'' [''linux'', ''mem=512MB''],
                  Exec ''linux'' [''linux'', ''mem=512MB''] [''HOME=/root'']] \<and>
      heap w' = heap uml_world0) \<and>
   os_Getenv (os_Environ env_root_child) ''_EXEC_REQ'' = encodeReq req_root \<and>
   encodeReq req_root \<noteq> [] \<and> decodeReq (encodeReq req_root) = Inr req_root \<and>
   Gid req_root = 0 \<and> Uid req_root = 0 \<and> Dir req_root = [] \<and>
   (\<exists>w'. maybeExec env_root_child uml_world0 = (Replaced, w') \<and>
      trace w' = [Println ''execing'' ''/bin/true'' [''/bin/true''],
                  Exec ''/bin/true'' [''/bin/true''] []] \<and>
      heap w' = heap uml_world0)"
proof -
  have g: "os_Getenv (os_Environ env_child) ''_EXEC_REQ'' = encodeReq req0"
    by (simp add: env_child_def env_ok_def)
  have g0: "os_Getenv (os_Environ env_root_child) ''_EXEC_REQ'' = encodeReq req_root"
    by (simp add: env_root_child_def env_ok_def)
  have ok: "os_error env_child = (\<lambda>tr ev. None)" "os_error env_root_child = (\<lambda>tr ev. None)"
    by (simp_all add: env_child_def env_root_child_def env_ok_def)
  have s: "spec_drop_sequence req0 =
      [Setgid 1000, Setuid 1000, Println ''execing'' ''linux'' [''linux'', ''mem=512MB''],
       Exec ''linux'' [''linux'', ''mem=512MB''] [''HOME=/root'']]"
    by (simp add: spec_drop_sequence_def req0_def word_sless_alt)
  have r: "Gid req_root = 0" "Uid req_root = 0" "Dir req_root = []"
     "execReq.Path req_root = ''/bin/true''" "Argv req_root = [''/bin/true'']" "Env req_root = []"
    by (simp_all add: req_root_def)
  have t: "trace uml_world0 = []"
    by (simp add: uml_world0_def)
  have a: "\<exists>w'. maybeExec env_child uml_world0 = (Replaced, w') \<and>
      trace w' = [Setgid 1000, Setuid 1000, Println ''execing'' ''linux'' [''linux'', ''mem=512MB''],
                  Exec ''linux'' [''linux'', ''mem=512MB''] [''HOME=/root'']] \<and>
      heap w' = heap uml_world0"
    using C4_privilege_drop_order [OF g encodeReq_nonempty decode_child, of uml_world0]
    unfolding ok s t by auto
  have b: "\<exists>w'. maybeExec env_root_child uml_world0 = (Replaced, w') \<and>
      trace w' = [Println ''execing'' ''/bin/true'' [''/bin/true''],
                  Exec ''/bin/true'' [''/bin/true''] []] \<and>
      heap w' = heap uml_world0"
    using C4_privilege_drop_order [OF g0 encodeReq_nonempty decode_root_child, of uml_world0]
    unfolding ok r t by (auto simp: spec_drop_sequence_def r)
  show ?thesis
    using a b g g0 encodeReq_nonempty [of req0] encodeReq_nonempty [of req_root]
      decode_child decode_root_child r
    by simp
qed

section \<open>Cleanup run twice\<close>

lemma uml_Wait_started:
  "uml.tap u = Some t \<Longrightarrow> uml.cmd u = Some c \<Longrightarrow> Process c = Some pid \<Longrightarrow>
   uml_Wait E u w =
     (Return (os_error E (trace w) (CmdWait pid)), u\<lparr>uml.tempFiles := []\<rparr>,
      w\<lparr>trace := trace w @ CmdWait pid # map RemoveAll (uml.tempFiles u) @ [TapClose t]\<rparr>)"
  by (simp add: uml_Wait_def uml_cleanup_Some os_call_def)

lemma uml_Kill_started:
  "uml.tap u = Some t \<Longrightarrow> uml.cmd u = Some c \<Longrightarrow> Process c = Some pid \<Longrightarrow>
   uml_Kill E u w =
     (Return (os_error E (trace w) (ProcessKill pid)), u\<lparr>uml.tempFiles := []\<rparr>,
      w\<lparr>trace := trace w @ ProcessKill pid # map RemoveAll (uml.tempFiles u) @ [TapClose t]\<rparr>)"
  by (simp add: uml_Kill_def uml_cleanup_Some os_call_def)

lemma vm_Wait_started:
  "vm.tap u = Some t \<Longrightarrow> vm.cmd u = Some c \<Longrightarrow> Process c = Some pid \<Longrightarrow>
   vm_Wait E u w =
     (Return (os_error E (trace w) (CmdWait pid)), u\<lparr>vm.tempFiles := []\<rparr>,
      w\<lparr>trace := trace w @ CmdWait pid # map RemoveAll (vm.tempFiles u) @ [TapClose t]\<rparr>)"
  by (simp add: vm_Wait_def vm_cleanup_Some os_call_def)

lemma vm_Kill_started:
  "vm.tap u = Some t \<Longrightarrow> vm.cmd u = Some c \<Longrightarrow> Process c = Some pid \<Longrightarrow>
   vm_Kill E u w =
     (Return (os_error E (trace w) (ProcessKill pid)), u\<lparr>vm.tempFiles := []\<rparr>,
      w\<lparr>trace := trace w @ ProcessKill pid # map RemoveAll (vm.tempFiles u) @ [TapClose t]\<rparr>)"
  by (simp add: vm_Kill_def vm_cleanup_Some os_call_def)

text \<open>
  Claim C6. Running the cleanup twice is claimed to release nothing twice. On a started
  instance \<^verbatim>\<open>Wait\<close> then \<^verbatim>\<open>Kill\<close>, and \<^verbatim>\<open>Kill\<close> then \<^verbatim>\<open>Wait\<close>, both return on both
  backends, and every registered path is removed in the first pass only, because
  \<^verbatim>\<open>cleanup\<close> forgets the paths. The endpoint is not forgotten: \<^verbatim>\<open>u.tap.Close()\<close> is called
  in both passes, so the endpoint is released twice.
\<close>

theorem C6_second_cleanup_closes_endpoint_again:
  "(uml.tap u = Some t \<and> uml.cmd u = Some c \<and> Process c = Some pid \<longrightarrow>
      (\<exists>r1 u1 w1 r2 u2 w2.
         uml_Wait E u w = (Return r1, u1, w1) \<and> uml_Kill E u1 w1 = (Return r2, u2, w2) \<and>
         trace w2 = trace w @ CmdWait pid # map RemoveAll (uml.tempFiles u) @
                      [TapClose t, ProcessKill pid, TapClose t]) \<and>
      (\<exists>r1 u1 w1 r2 u2 w2.
         uml_Kill E u w = (Return r1, u1, w1) \<and> uml_Wait E u1 w1 = (Return r2, u2, w2) \<and>
         trace w2 = trace w @ ProcessKill pid # map RemoveAll (uml.tempFiles u) @
                      [TapClose t, CmdWait pid, TapClose t])) \<and>
   (vm.tap v = Some t \<and> vm.cmd v = Some c \<and> Process c = Some pid \<longrightarrow>
      (\<exists>r1 v1 w1 r2 v2 w2.
         vm_Wait E v vw = (Return r1, v1, w1) \<and> vm_Kill E v1 w1 = (Return r2, v2, w2) \<and>
         trace w2 = trace vw @ CmdWait pid # map RemoveAll (vm.tempFiles v) @
                      [TapClose t, ProcessKill pid, TapClose t]) \<and>
      (\<exists>r1 v1 w1 r2 v2 w2.
         vm_Kill E v vw = (Return r1, v1, w1) \<and> vm_Wait E v1 w1 = (Return r2, v2, w2) \<and>
         trace w2 = trace vw @ ProcessKill pid # map RemoveAll (vm.tempFiles v) @
                      [TapClose t, CmdWait pid, TapClose t]))"
  by (simp add: uml_Wait_started uml_Kill_started vm_Wait_started vm_Kill_started)

theorem C6_second_cleanup_witness:
  "(\<exists>r1 u1 w1 r2 u2 w2.
      uml_Wait env_ok uml_started0 uml_world0 = (Return r1, u1, w1) \<and>
      uml_Kill env_ok u1 w1 = (Return r2, u2, w2) \<and>
      trace w2 = [CmdWait 4242, RemoveAll ''/tmp/2'', RemoveAll ''/tmp/7'', TapClose tap0,
                  ProcessKill 4242, TapClose tap0] \<and>
      count_list (trace w2) (TapClose tap0) = 2) \<and>
   (\<exists>r1 v1 w1 r2 v2 w2.
      vm_Kill env_ok vm_started0 vm_world0 = (Return r1, v1, w1) \<and>
      vm_Wait env_ok v1 w1 = (Return r2, v2, w2) \<and>
      trace w2 = [ProcessKill 4242, RemoveAll ''/tmp/2'', RemoveAll ''/tmp/7'', TapClose tap0,
                  CmdWait 4242, TapClose tap0] \<and>
      count_list (trace w2) (TapClose tap0) = 2)"
  using C6_second_cleanup_closes_endpoint_again
          [of uml_started0 tap0 cmd0 4242 env_ok uml_world0 vm_started0 vm_world0]
  by (auto simp: uml_started0_def vm_started0_def cmd0_def uml_world0_def vm_world0_def)

section \<open>Failures while an overlay is created\<close>

lemma vm_tempCOW_tool_fails:
  "os_TempDir E (trace w) = Inr dir \<Longrightarrow> heap w (VMConfig u) = Some c \<Longrightarrow>
   os_error E (trace w @ [TempDir (Inr dir)]) (Chown dir (VMConfig.User c) (VMConfig.Group c)) = None \<Longrightarrow>
   os_error E (trace w @ [TempDir (Inr dir), Chown dir (VMConfig.User c) (VMConfig.Group c)])
     (CmdRun [''qemu-img'', ''create'', ''-f'', ''qcow2'', ''-b'', img, filepath_Join dir ''fs.img''])
     = Some err \<Longrightarrow>
   fst (vm_tempCOW (E\<lparr>tool_output := out\<rparr>) img u w) =
     Return ([], Some (Err (''failed to create COW filesystem: '' @ Error err)))"
  by (simp add: vm_tempCOW_def ioutil_TempDir_def os_call_def Let_def)

lemma vm_tempCOW_no_tmp:
  "os_TempDir E (trace w) = Inl e \<Longrightarrow>
   vm_tempCOW E img u w = (Return ([], Some e), u, w\<lparr>trace := trace w @ [TempDir (Inl e)]\<rparr>)"
  by (simp add: vm_tempCOW_def ioutil_TempDir_def os_call_def Let_def)

lemma vm_tempCOW_no_chown:
  "os_TempDir E (trace w) = Inr dir \<Longrightarrow> heap w (VMConfig u) = Some c \<Longrightarrow>
   os_error E (trace w @ [TempDir (Inr dir)]) (Chown dir (VMConfig.User c) (VMConfig.Group c)) = Some e \<Longrightarrow>
   vm_tempCOW E img u w =
     (Return ([], Some e), u\<lparr>vm.tempFiles := vm.tempFiles u @ [dir]\<rparr>,
      w\<lparr>trace := trace w @ [TempDir (Inr dir), Chown dir (VMConfig.User c) (VMConfig.Group c)]\<rparr>)"
  by (simp add: vm_tempCOW_def ioutil_TempDir_def os_call_def Let_def)

lemma uml_createFS_tool_fails:
  "os_TempFile E (trace w) = Inr name \<Longrightarrow>
   os_error E (trace w @ [TempFile (Inr name)]) (FileSeek name sz) = None \<Longrightarrow>
   os_error E (trace w @ [TempFile (Inr name), FileSeek name sz]) (FileWrite name [CHR 0x00]) = None \<Longrightarrow>
   os_error E (trace w @ [TempFile (Inr name), FileSeek name sz, FileWrite name [CHR 0x00],
                          FileChown name uid gid, FileClose name])
     (CmdCombinedOutput [''mkfs.ext4'', ''-Fq'', name]) = Some err \<Longrightarrow>
   fst (uml_createFS E sz uid gid w) =
     ([], Some (Err (''mkfs.ext4 error '' @ Error err @ '' - '' @
        strconv_Quote E (tool_output E
          (trace w @ [TempFile (Inr name), FileSeek name sz, FileWrite name [CHR 0x00],
                      FileChown name uid gid, FileClose name])))))"
  by (simp add: uml_createFS_def ioutil_TempFile_def os_call_def Let_def)

text \<open>
  Claim C9. When the overlay tool fails, the error of \<^verbatim>\<open>tempCOW\<close> is claimed to carry
  the tool's output. \<^verbatim>\<open>tempCOW\<close> runs \<^verbatim>\<open>qemu-img\<close> with \<^verbatim>\<open>cmd.Run()\<close>, which leaves the
  output unread: whatever the tool prints, the error is the fixed prefix followed by the
  text of the exit error. \<^verbatim>\<open>createFS\<close> in the same program does attach the output of
  its tool. The other half of the claim holds: when the temporary directory cannot be
  created or cannot change owner, \<^verbatim>\<open>tempCOW\<close> returns that error and the tool is never
  run.
\<close>

theorem C9_overlay_error_lacks_tool_output:
  "(os_TempDir E (trace w) = Inr dir \<and> heap w (VMConfig u) = Some c \<and>
    os_error E (trace w @ [TempDir (Inr dir)])
      (Chown dir (VMConfig.User c) (VMConfig.Group c)) = None \<and>
    os_error E (trace w @ [TempDir (Inr dir), Chown dir (VMConfig.User c) (VMConfig.Group c)])
      (CmdRun [''qemu-img'', ''create'', ''-f'', ''qcow2'', ''-b'', img,
               filepath_Join dir ''fs.img'']) = Some err \<longrightarrow>
      fst (vm_tempCOW (E\<lparr>tool_output := out\<rparr>) img u w) =
        Return ([], Some (Err (''failed to create COW filesystem: '' @ Error err)))) \<and>
   (os_TempDir E (trace w) = Inl e \<longrightarrow>
      vm_tempCOW E img u w =
        (Return ([], Some e), u, w\<lparr>trace := trace w @ [TempDir (Inl e)]\<rparr>)) \<and>
   (os_TempDir E (trace w) = Inr dir \<and> heap w (VMConfig u) = Some c \<and>
    os_error E (trace w @ [TempDir (Inr dir)])
      (Chown dir (VMConfig.User c) (VMConfig.Group c)) = Some e \<longrightarrow>
      vm_tempCOW E img u w =
        (Return ([], Some e), u\<lparr>vm.tempFiles := vm.tempFiles u @ [dir]\<rparr>,
         w\<lparr>trace := trace w @
              [TempDir (Inr dir), Chown dir (VMConfig.User c) (VMConfig.Group c)]\<rparr>)) \<and>
   (os_TempFile E (trace fw) = Inr name \<and>
    os_error E (trace fw @ [TempFile (Inr name)]) (FileSeek name sz) = None \<and>
    os_error E (trace fw @ [TempFile (Inr name), FileSeek name sz])
      (FileWrite name [CHR 0x00]) = None \<and>
    os_error E (trace fw @ [TempFile (Inr name), FileSeek name sz, FileWrite name [CHR 0x00],
                            FileChown name uid gid, FileClose name])
      (CmdCombinedOutput [''mkfs.ext4'', ''-Fq'', name]) = Some err \<longrightarrow>
      fst (uml_createFS E sz uid gid fw) =
        ([], Some (Err (''mkfs.ext4 error '' @ Error err @ '' - '' @
           strconv_Quote E (tool_output E
             (trace fw @ [TempFile (Inr name), FileSeek name sz, FileWrite name [CHR 0x00],
                          FileChown name uid gid, FileClose name]))))))"
  using vm_tempCOW_tool_fails [of E w dir u c img err out] vm_tempCOW_no_tmp [of E w e img u]
    vm_tempCOW_no_chown [of E w dir u c e img]
    uml_createFS_tool_fails [of E fw name sz uid gid err]
  by blast

theorem C9_overlay_error_witness:
  "fst (vm_tempCOW env_tool_fails ''rootfs.img'' vm_new0 vm_world0) =
     Return ([], Some (Err ''failed to create COW filesystem: exit status 1'')) \<and>
   tool_output env_tool_fails [TempDir (Inr ''/tmp/0''), Chown ''/tmp/0'' 1000 1000] =
     ''No space left on device'' \<and>
   fst (uml_createFS env_tool_fails 17179869184 1000 1000 uml_world0) =
     ([], Some (Err (''mkfs.ext4 error exit status 1 - '' @ [CHR 0x22] @
                     ''No space left on device'' @ [CHR 0x22]))) \<and>
   vm_tempCOW env_no_tmp ''rootfs.img'' vm_new0 vm_world0 =
     (Return ([], Some (Err ''mkdir /tmp: read-only file system'')), vm_new0,
      vm_world0\<lparr>trace := [TempDir (Inl (Err ''mkdir /tmp: read-only file system''))]\<rparr>) \<and>
   vm_tempCOW env_no_chown ''rootfs.img'' vm_new0 vm_world0 =
     (Return ([], Some (Err ''operation not permitted'')),
      vm_new0\<lparr>vm.tempFiles := [''/tmp/0'']\<rparr>,
      vm_world0\<lparr>trace := [TempDir (Inr ''/tmp/0''), Chown ''/tmp/0'' 1000 1000]\<rparr>)"
proof -
  have a: "fst (vm_tempCOW env_tool_fails ''rootfs.img'' vm_new0 vm_world0) =
       Return ([], Some (Err ''failed to create COW filesystem: exit status 1'')) \<and>
     fst (uml_createFS env_tool_fails 17179869184 1000 1000 uml_world0) =
       ([], Some (Err (''mkfs.ext4 error exit status 1 - '' @ [CHR 0x22] @
                       ''No space left on device'' @ [CHR 0x22])))"
    using C9_overlay_error_lacks_tool_output
            [of "env_tool_fails" vm_world0 "''/tmp/0''" vm_new0 vm_config0 "''rootfs.img''"
                "Err ''exit status 1''" "\<lambda>tr. ''No space left on device''" "Err []"
                uml_world0 "''/tmp/0''" 17179869184 1000 1000]
    by (simp add: env_tool_fails_def env_ok_def vm_world0_def uml_world0_def vm_new0_def
          vm_config0_def filepath_Join_def)
  have b: "vm_tempCOW env_no_tmp ''rootfs.img'' vm_new0 vm_world0 =
     (Return ([], Some (Err ''mkdir /tmp: read-only file system'')), vm_new0,
      vm_world0\<lparr>trace := [TempDir (Inl (Err ''mkdir /tmp: read-only file system''))]\<rparr>)"
    using C9_overlay_error_lacks_tool_output
            [of env_no_tmp vm_world0 "[]" vm_new0 vm_config0 "''rootfs.img''"
                "Err []" "\<lambda>tr. []" "Err ''mkdir /tmp: read-only file system''"]
    by (simp add: env_no_tmp_def env_ok_def vm_world0_def)
  have c: "vm_tempCOW env_no_chown ''rootfs.img'' vm_new0 vm_world0 =
     (Return ([], Some (Err ''operation not permitted'')),
      vm_new0\<lparr>vm.tempFiles := [''/tmp/0'']\<rparr>,
      vm_world0\<lparr>trace := [TempDir (Inr ''/tmp/0''), Chown ''/tmp/0'' 1000 1000]\<rparr>)"
    using C9_overlay_error_lacks_tool_output
            [of env_no_chown vm_world0 "''/tmp/0''" vm_new0 vm_config0 "''rootfs.img''"
                "Err []" "\<lambda>tr. []" "Err ''operation not permitted''"]
    by (simp add: env_no_chown_def env_ok_def vm_world0_def vm_new0_def vm_config0_def)
  show ?thesis
    using a b c by (simp add: env_tool_fails_def env_ok_def)
qed

end
